theory Spec2Isabelle
  imports Complex_Main "HOL-Library.Monad_Syntax"
begin

section \<open>Values and tensors\<close>

text \<open>
  The module \<^verbatim>\<open>research/object_detection/utils/target_assigner_utils.py\<close> is
  straight-line TensorFlow code over float32 tensors. A float is modelled as a real
  number, a signed infinity or NaN: arithmetic is exact (float32 rounding, overflow and
  underflow of finite values and the sign of zero are not modelled), and the operations
  follow IEEE 754 on the non-finite values. The statements on the values of the grids, on
  the Gaussian response and on the range of the heatmap carry the bounds inside which the
  exact cast and product are those of float32: an image size of at most \<open>2^24\<close>, up to
  which every integer is a float32, and a sigma of magnitude between \<open>2^-63\<close> and
  \<open>2^63\<close>, for which \<open>2 * sigma * sigma\<close> neither underflows to 0 nor overflows. A TensorFlow error (InvalidArgumentError on
  incompatible shapes, an index out of bounds) is the result \<open>None\<close>.
\<close>

datatype f32 = NaN | NegInf | PosInf | Fin real

fun f32_neg :: "f32 \<Rightarrow> f32" where
  "f32_neg NaN = NaN"
| "f32_neg NegInf = PosInf"
| "f32_neg PosInf = NegInf"
| "f32_neg (Fin a) = Fin (- a)"

fun f32_add :: "f32 \<Rightarrow> f32 \<Rightarrow> f32" where
  "f32_add (Fin a) (Fin b) = Fin (a + b)"
| "f32_add NaN _ = NaN"
| "f32_add _ NaN = NaN"
| "f32_add PosInf NegInf = NaN"
| "f32_add NegInf PosInf = NaN"
| "f32_add PosInf _ = PosInf"
| "f32_add _ PosInf = PosInf"
| "f32_add NegInf _ = NegInf"
| "f32_add _ NegInf = NegInf"

definition f32_sub :: "f32 \<Rightarrow> f32 \<Rightarrow> f32" where
  "f32_sub x y = f32_add x (f32_neg y)"

text \<open>The sign of a float that is not NaN: \<open>-1\<close>, \<open>0\<close> or \<open>1\<close>.\<close>

fun f32_sgn :: "f32 \<Rightarrow> int" where
  "f32_sgn NaN = 0"
| "f32_sgn NegInf = - 1"
| "f32_sgn PosInf = 1"
| "f32_sgn (Fin a) = (if a < 0 then - 1 else if a = 0 then 0 else 1)"

definition f32_inf :: "int \<Rightarrow> f32" where
  "f32_inf s = (if s < 0 then NegInf else if s = 0 then NaN else PosInf)"

fun f32_mul :: "f32 \<Rightarrow> f32 \<Rightarrow> f32" where
  "f32_mul (Fin a) (Fin b) = Fin (a * b)"
| "f32_mul NaN _ = NaN"
| "f32_mul _ NaN = NaN"
| "f32_mul x y = f32_inf (f32_sgn x * f32_sgn y)"

text \<open>
  Division: a finite number over zero is an infinity of the sign of the numerator, and
  \<open>0 / 0\<close> is NaN. Every zero divisor of the module is a product \<open>2 * sigma * sigma\<close>,
  a positive zero.
\<close>

fun f32_div :: "f32 \<Rightarrow> f32 \<Rightarrow> f32" where
  "f32_div (Fin a) (Fin b) = (if b = 0 then f32_inf (f32_sgn (Fin a)) else Fin (a / b))"
| "f32_div NaN _ = NaN"
| "f32_div _ NaN = NaN"
| "f32_div (Fin a) _ = Fin 0"
| "f32_div x (Fin b) = f32_inf (f32_sgn x * (if b < 0 then - 1 else 1))"
| "f32_div _ _ = NaN"

fun f32_exp :: "f32 \<Rightarrow> f32" where
  "f32_exp NaN = NaN"
| "f32_exp NegInf = Fin 0"
| "f32_exp PosInf = PosInf"
| "f32_exp (Fin a) = Fin (exp a)"

fun f32_floor :: "f32 \<Rightarrow> f32" where
  "f32_floor (Fin a) = Fin (of_int \<lfloor>a\<rfloor>)"
| "f32_floor x = x"

fun f32_le :: "f32 \<Rightarrow> f32 \<Rightarrow> bool" where
  "f32_le NaN _ = False"
| "f32_le _ NaN = False"
| "f32_le NegInf _ = True"
| "f32_le _ PosInf = True"
| "f32_le (Fin a) (Fin b) = (a \<le> b)"
| "f32_le _ _ = False"

definition f32_ge :: "f32 \<Rightarrow> f32 \<Rightarrow> bool" where
  "f32_ge x y = f32_le y x"

text \<open>
  The maximum of two floats. TensorFlow leaves the result on a NaN operand to the
  kernel; here NaN propagates. No statement below depends on that choice: NaN reaches
  a maximum only from a non-finite input or from \<open>sigma = 0\<close>.
\<close>

fun f32_max :: "f32 \<Rightarrow> f32 \<Rightarrow> f32" where
  "f32_max NaN _ = NaN"
| "f32_max _ NaN = NaN"
| "f32_max x y = (if f32_le x y then y else x)"

fun is_nan :: "f32 \<Rightarrow> bool" where
  "is_nan NaN = True"
| "is_nan _ = False"

text \<open>\<^verbatim>\<open>tf.cast(b, tf.float32)\<close> of a boolean.\<close>

definition f32_of_bool :: "bool \<Rightarrow> f32" where
  "f32_of_bool b = (if b then Fin 1 else Fin 0)"

text \<open>
  \<^verbatim>\<open>tf.cast(x, tf.int32)\<close> of a float truncates towards zero. For NaN, an infinity
  and a value outside the int32 range the kernel raises no error and returns the least
  int32, \<open>- 2^31\<close>.
\<close>

fun cast_int32 :: "f32 \<Rightarrow> int option" where
  "cast_int32 (Fin a) =
     (let t = (if 0 \<le> a then \<lfloor>a\<rfloor> else \<lceil>a\<rceil>)
      in if - (2 ^ 31) \<le> t \<and> t < 2 ^ 31 then Some t else Some (- (2 ^ 31)))"
| "cast_int32 _ = Some (- (2 ^ 31))"

text \<open>
  A tensor is its shape and its elements by index; the elements are read only at
  indices inside the shape. A Python scalar is a tensor of shape \<open>[]\<close>.
\<close>

datatype 'a tensor = Tensor (shape: "nat list") (elem: "nat list \<Rightarrow> 'a")

definition scalar :: "'a \<Rightarrow> 'a tensor" where
  "scalar v = Tensor [] (\<lambda>_. v)"

definition vec :: "'a list \<Rightarrow> 'a tensor" where
  "vec xs = Tensor [length xs] (\<lambda>idx. xs ! (idx ! 0))"

definition mat :: "nat \<Rightarrow> 'a list list \<Rightarrow> 'a tensor" where
  "mat ncols rows = Tensor [length rows, ncols] (\<lambda>idx. rows ! (idx ! 0) ! (idx ! 1))"

text \<open>
  Keypoints as a tensor of shape \<open>[num_instances, num_keypoints, 2]\<close>, from one row of
  \<open>(y, x)\<close> pairs for every instance.
\<close>

definition keypoints :: "nat \<Rightarrow> ('a \<times> 'a) list list \<Rightarrow> 'a tensor" where
  "keypoints num_keypoints rows =
     Tensor [length rows, num_keypoints, 2]
       (\<lambda>idx. if idx ! 2 = 0 then fst (rows ! (idx ! 0) ! (idx ! 1))
              else snd (rows ! (idx ! 0) ! (idx ! 1)))"

definition tmap :: "('a \<Rightarrow> 'b) \<Rightarrow> 'a tensor \<Rightarrow> 'b tensor" where
  "tmap f T = Tensor (shape T) (\<lambda>idx. f (elem T idx))"

text \<open>A tensor of finite floats, from a tensor of reals.\<close>

definition fin :: "real tensor \<Rightarrow> f32 tensor" where
  "fin T = tmap Fin T"

subsection \<open>Broadcasting\<close>

text \<open>
  Two shapes are aligned at their last axis; two sizes are compatible when they are
  equal or one of them is 1. An operand is read at the result's index with the leading
  axes dropped and index 0 on the axes of size 1.
\<close>

definition bdim :: "nat \<Rightarrow> nat \<Rightarrow> nat option" where
  "bdim a b = (if a = b then Some a else if a = 1 then Some b
               else if b = 1 then Some a else None)"

fun bshape_rev :: "nat list \<Rightarrow> nat list \<Rightarrow> nat list option" where
  "bshape_rev [] ys = Some ys"
| "bshape_rev xs [] = Some xs"
| "bshape_rev (x # xs) (y # ys) =
     (case bdim x y of None \<Rightarrow> None
      | Some d \<Rightarrow> map_option ((#) d) (bshape_rev xs ys))"

definition broadcast_shape :: "nat list \<Rightarrow> nat list \<Rightarrow> nat list option" where
  "broadcast_shape a b = map_option rev (bshape_rev (rev a) (rev b))"

definition bindex :: "nat list \<Rightarrow> nat list \<Rightarrow> nat list" where
  "bindex s idx = map2 (\<lambda>d i. if d = 1 then 0 else i) s (drop (length idx - length s) idx)"

definition binop :: "('a \<Rightarrow> 'b \<Rightarrow> 'c) \<Rightarrow> 'a tensor \<Rightarrow> 'b tensor \<Rightarrow> 'c tensor option" where
  "binop f A B =
     map_option
       (\<lambda>s. Tensor s (\<lambda>idx. f (elem A (bindex (shape A) idx)) (elem B (bindex (shape B) idx))))
       (broadcast_shape (shape A) (shape B))"

subsection \<open>The TensorFlow operations of the module\<close>

text \<open>\<^verbatim>\<open>tf.cast(n, tf.float32)\<close> of a non-negative Python integer.\<close>

definition cast_float32 :: "nat \<Rightarrow> f32" where
  "cast_float32 n = Fin (real n)"

text \<open>
  \<^verbatim>\<open>tf.range(limit, dtype=tf.float32)\<close>: the values \<open>0, 1, ...\<close> below the limit;
  a negative or non-finite limit is an error.
\<close>

fun tf_range :: "f32 \<Rightarrow> f32 tensor option" where
  "tf_range (Fin l) =
     (if l < 0 then None else Some (Tensor [nat \<lceil>l\<rceil>] (\<lambda>idx. Fin (real (idx ! 0)))))"
| "tf_range _ = None"

text \<open>\<^verbatim>\<open>tf.meshgrid(x, y, indexing='xy')\<close> of two vectors.\<close>

definition meshgrid_xy :: "'a tensor \<Rightarrow> 'a tensor \<Rightarrow> ('a tensor \<times> 'a tensor) option" where
  "meshgrid_xy x y =
     (if length (shape x) = 1 \<and> length (shape y) = 1
      then Some (Tensor [shape y ! 0, shape x ! 0] (\<lambda>idx. elem x [idx ! 1]),
                 Tensor [shape y ! 0, shape x ! 0] (\<lambda>idx. elem y [idx ! 0]))
      else None)"

text \<open>
  \<^verbatim>\<open>tf.expand_dims(T, axis)\<close>: a new axis of size 1; a negative axis counts from
  the end.
\<close>

definition expand_dims :: "'a tensor \<Rightarrow> int \<Rightarrow> 'a tensor option" where
  "expand_dims T axis =
     (let r = int (length (shape T));
          a = (if axis < 0 then axis + r + 1 else axis)
      in if 0 \<le> a \<and> a \<le> r
         then Some (Tensor (take (nat a) (shape T) @ [1] @ drop (nat a) (shape T))
                      (\<lambda>idx. elem T (take (nat a) idx @ drop (Suc (nat a)) idx)))
         else None)"

text \<open>\<^verbatim>\<open>tf.reshape\<close>: the elements in row-major order under a new shape.\<close>

definition flat_index :: "nat list \<Rightarrow> nat list \<Rightarrow> nat" where
  "flat_index s idx = foldl (\<lambda>acc (d, i). acc * d + i) 0 (zip s idx)"

fun unflat_index :: "nat list \<Rightarrow> nat \<Rightarrow> nat list" where
  "unflat_index [] k = []"
| "unflat_index (d # ds) k = (k div prod_list ds) mod d # unflat_index ds k"

definition tf_reshape :: "'a tensor \<Rightarrow> nat list \<Rightarrow> 'a tensor option" where
  "tf_reshape T s =
     (if prod_list s = prod_list (shape T)
      then Some (Tensor s (\<lambda>idx. elem T (unflat_index (shape T) (flat_index s idx))))
      else None)"

text \<open>
  \<^verbatim>\<open>tf.reduce_max(T, axis)\<close>: the maximum along one axis, which is removed. The
  maximum of no element is \<open>-inf\<close>, as the module's own comment has it.
\<close>

definition max_along :: "nat \<Rightarrow> (nat \<Rightarrow> f32) \<Rightarrow> f32" where
  "max_along n f = foldl f32_max NegInf (map f [0..<n])"

definition reduce_max :: "f32 tensor \<Rightarrow> nat \<Rightarrow> f32 tensor option" where
  "reduce_max T axis =
     (if axis < length (shape T)
      then Some (Tensor (take axis (shape T) @ drop (Suc axis) (shape T))
                   (\<lambda>idx. max_along (shape T ! axis)
                      (\<lambda>i. elem T (take axis idx @ [i] @ drop axis idx))))
      else None)"

text \<open>\<^verbatim>\<open>tf.tile(T, multiples)\<close>: every axis repeated.\<close>

definition tf_tile :: "'a tensor \<Rightarrow> nat list \<Rightarrow> 'a tensor option" where
  "tf_tile T multiples =
     (if length multiples = length (shape T)
      then Some (Tensor (map2 (*) (shape T) multiples)
                   (\<lambda>idx. elem T (map2 (\<lambda>i d. i mod d) idx (shape T))))
      else None)"

text \<open>
  A range slice \<^verbatim>\<open>T[..., start:stop, ...]\<close> on one axis (bounds clamped to the axis,
  \<open>None\<close> for an omitted stop) and an integer index \<^verbatim>\<open>T[..., k, ...]\<close> on one axis
  (negative from the end, out of bounds an error), which removes the axis.
\<close>

definition slice_axis :: "'a tensor \<Rightarrow> nat \<Rightarrow> nat \<Rightarrow> nat option \<Rightarrow> 'a tensor option" where
  "slice_axis T axis start stop =
     (if axis < length (shape T)
      then (let d = shape T ! axis;
                lo = min start d;
                hi = (case stop of None \<Rightarrow> d | Some e \<Rightarrow> min e d)
            in Some (Tensor ((shape T)[axis := hi - lo])
                       (\<lambda>idx. elem T (idx[axis := idx ! axis + lo]))))
      else None)"

definition index_axis :: "'a tensor \<Rightarrow> nat \<Rightarrow> int \<Rightarrow> 'a tensor option" where
  "index_axis T axis k =
     (if axis < length (shape T)
      then (let d = int (shape T ! axis);
                j = (if k < 0 then k + d else k)
            in if 0 \<le> j \<and> j < d
               then Some (Tensor (take axis (shape T) @ drop (Suc axis) (shape T))
                            (\<lambda>idx. elem T (take axis idx @ [nat j] @ drop axis idx)))
               else None)
      else None)"

text \<open>
  \<^verbatim>\<open>tf.gather(T, indices, axis)\<close> with a list of indices; an index outside the axis
  is an error (the CPU kernel).
\<close>

definition tf_gather :: "'a tensor \<Rightarrow> int list \<Rightarrow> nat \<Rightarrow> 'a tensor option" where
  "tf_gather T indices axis =
     (if axis < length (shape T) \<and> list_all (\<lambda>k. 0 \<le> k \<and> k < int (shape T ! axis)) indices
      then Some (Tensor ((shape T)[axis := length indices])
                   (\<lambda>idx. elem T (idx[axis := nat (indices ! (idx ! axis))])))
      else None)"

text \<open>\<^verbatim>\<open>tf.stack(ts, axis)\<close>: tensors of one shape along a new axis.\<close>

definition tf_stack :: "'a tensor list \<Rightarrow> nat \<Rightarrow> 'a tensor option" where
  "tf_stack ts axis =
     (case ts of
        [] \<Rightarrow> None
      | t # _ \<Rightarrow>
          if list_all (\<lambda>u. shape u = shape t) ts \<and> axis \<le> length (shape t)
          then Some (Tensor (take axis (shape t) @ [length ts] @ drop axis (shape t))
                       (\<lambda>idx. elem (ts ! (idx ! axis)) (take axis idx @ drop (Suc axis) idx)))
          else None)"

text \<open>
  \<^verbatim>\<open>tf.where(c, x, y)\<close> on three tensors of one shape, the only use the module makes
  of it.
\<close>

definition tf_where :: "bool tensor \<Rightarrow> 'a tensor \<Rightarrow> 'a tensor \<Rightarrow> 'a tensor option" where
  "tf_where c x y =
     (if shape c = shape x \<and> shape x = shape y
      then Some (Tensor (shape x) (\<lambda>idx. if elem c idx then elem x idx else elem y idx))
      else None)"

text \<open>\<^verbatim>\<open>tf.shape(T)[k]\<close>: the size of one axis, an error beyond the rank.\<close>

definition shape_dim :: "'a tensor \<Rightarrow> nat \<Rightarrow> nat option" where
  "shape_dim T k = (if k < length (shape T) then Some (shape T ! k) else None)"

definition zeros_like :: "f32 tensor \<Rightarrow> f32 tensor" where
  "zeros_like T = Tensor (shape T) (\<lambda>_. Fin 0)"

definition ones_like :: "f32 tensor \<Rightarrow> f32 tensor" where
  "ones_like T = Tensor (shape T) (\<lambda>_. Fin 1)"

text \<open>The element-wise operations, with broadcasting where they take two tensors.\<close>

definition tf_floor :: "f32 tensor \<Rightarrow> f32 tensor" where
  "tf_floor T = tmap f32_floor T"

definition tf_neg :: "f32 tensor \<Rightarrow> f32 tensor" where
  "tf_neg T = tmap f32_neg T"

definition tf_exp :: "f32 tensor \<Rightarrow> f32 tensor" where
  "tf_exp T = tmap f32_exp T"

definition tf_pow2 :: "f32 tensor \<Rightarrow> f32 tensor" where
  "tf_pow2 T = tmap (\<lambda>x. f32_mul x x) T"

definition tf_is_nan :: "f32 tensor \<Rightarrow> bool tensor" where
  "tf_is_nan T = tmap is_nan T"

definition tf_logical_not :: "bool tensor \<Rightarrow> bool tensor" where
  "tf_logical_not T = tmap Not T"

definition tf_add :: "f32 tensor \<Rightarrow> f32 tensor \<Rightarrow> f32 tensor option" where
  "tf_add = binop f32_add"

definition tf_sub :: "f32 tensor \<Rightarrow> f32 tensor \<Rightarrow> f32 tensor option" where
  "tf_sub = binop f32_sub"

definition tf_mul :: "f32 tensor \<Rightarrow> f32 tensor \<Rightarrow> f32 tensor option" where
  "tf_mul = binop f32_mul"

definition tf_div :: "f32 tensor \<Rightarrow> f32 tensor \<Rightarrow> f32 tensor option" where
  "tf_div = binop f32_div"

definition tf_maximum :: "f32 tensor \<Rightarrow> f32 tensor \<Rightarrow> f32 tensor option" where
  "tf_maximum = binop f32_max"

definition tf_greater_equal :: "f32 tensor \<Rightarrow> f32 tensor \<Rightarrow> bool tensor option" where
  "tf_greater_equal = binop f32_ge"

definition tf_less_equal :: "f32 tensor \<Rightarrow> f32 tensor \<Rightarrow> bool tensor option" where
  "tf_less_equal = binop f32_le"

definition tf_logical_and :: "bool tensor \<Rightarrow> bool tensor \<Rightarrow> bool tensor option" where
  "tf_logical_and = binop (\<and>)"

text \<open>
  Modelled from the spec: \<^verbatim>\<open>shape_utils.combined_static_and_dynamic_shape\<close> is not
  among the source files; the spec gives \<^verbatim>\<open>channel_onehot\<close> the shape \<open>[N, C]\<close> that
  the call site unpacks, so the helper returns the tensor's shape as a list.
\<close>

definition combined_static_and_dynamic_shape :: "'a tensor \<Rightarrow> nat list" where
  "combined_static_and_dynamic_shape T = shape T"

text \<open>Python's unpacking of a list into two names: an error unless it has two items.\<close>

fun unpack2 :: "'a list \<Rightarrow> ('a \<times> 'a) option" where
  "unpack2 [a, b] = Some (a, b)"
| "unpack2 _ = None"

section \<open>The grid generator\<close>

definition image_shape_to_grids :: "nat \<Rightarrow> nat \<Rightarrow> (f32 tensor \<times> f32 tensor) option" where
  "image_shape_to_grids height width = do {
     let out_height = cast_float32 height;
     let out_width = cast_float32 width;
     x_range \<leftarrow> tf_range out_width;
     y_range \<leftarrow> tf_range out_height;
     (x_grid, y_grid) \<leftarrow> meshgrid_xy x_range y_range;
     Some (y_grid, x_grid)
   }"

section \<open>The heatmap renderer\<close>

text \<open>
  Lines 82 to 89 of the module, the Gaussian response of every instance at every
  pixel, a tensor of shape \<open>[height, width, num_instances]\<close>.
\<close>

definition gaussian_map ::
  "f32 tensor \<Rightarrow> f32 tensor \<Rightarrow> f32 tensor \<Rightarrow> f32 tensor \<Rightarrow> f32 tensor \<Rightarrow> f32 tensor option" where
  "gaussian_map y_grid x_grid y_coordinates x_coordinates sigma = do {
     x_grid \<leftarrow> expand_dims x_grid 2;
     y_grid \<leftarrow> expand_dims y_grid 2;
     x_diff \<leftarrow> tf_sub x_grid (tf_floor x_coordinates);
     y_diff \<leftarrow> tf_sub y_grid (tf_floor y_coordinates);
     squared_distance \<leftarrow> tf_add (tf_pow2 x_diff) (tf_pow2 y_diff);
     two_sigma \<leftarrow> tf_mul (scalar (Fin 2)) sigma;
     two_sigma_sigma \<leftarrow> tf_mul two_sigma sigma;
     quotient \<leftarrow> tf_div (tf_neg squared_distance) two_sigma_sigma;
     Some (tf_exp quotient)
   }"

definition coordinates_to_heatmap ::
  "f32 tensor \<Rightarrow> f32 tensor \<Rightarrow> f32 tensor \<Rightarrow> f32 tensor \<Rightarrow> f32 tensor \<Rightarrow> f32 tensor \<Rightarrow>
   f32 tensor option \<Rightarrow> f32 tensor option" where
  "coordinates_to_heatmap y_grid x_grid y_coordinates x_coordinates sigma channel_onehot
     channel_weights = do {
     (num_instances, num_channels) \<leftarrow>
       unpack2 (combined_static_and_dynamic_shape channel_onehot);
     gaussian_map \<leftarrow> gaussian_map y_grid x_grid y_coordinates x_coordinates sigma;
     reshaped_gaussian_map \<leftarrow> expand_dims gaussian_map (- 1);
     reshaped_channel_onehot \<leftarrow>
       tf_reshape channel_onehot [1, 1, num_instances, num_channels];
     gaussian_per_box_per_class_map \<leftarrow> tf_mul reshaped_gaussian_map reshaped_channel_onehot;
     gaussian_per_box_per_class_map \<leftarrow>
       (case channel_weights of
          None \<Rightarrow> Some gaussian_per_box_per_class_map
        | Some weights \<Rightarrow> do {
            reshaped_weights \<leftarrow> tf_reshape weights [1, 1, num_instances, 1];
            tf_mul gaussian_per_box_per_class_map reshaped_weights
          });
     heatmap \<leftarrow> reduce_max gaussian_per_box_per_class_map 2;
     tf_maximum heatmap (scalar (Fin 0))
   }"

section \<open>The offset and index computer\<close>

definition compute_floor_offsets_with_indices ::
  "f32 tensor \<Rightarrow> f32 tensor \<Rightarrow> f32 tensor option \<Rightarrow> f32 tensor option \<Rightarrow>
   (f32 tensor \<times> int option tensor) option" where
  "compute_floor_offsets_with_indices y_source x_source y_target x_target = do {
     let y_source_floored = tf_floor y_source;
     let x_source_floored = tf_floor x_source;
     let y_target = (case y_target of None \<Rightarrow> y_source | Some t \<Rightarrow> t);
     let x_target = (case x_target of None \<Rightarrow> x_source | Some t \<Rightarrow> t);
     y_offset \<leftarrow> tf_sub y_target y_source_floored;
     x_offset \<leftarrow> tf_sub x_target x_source_floored;
     let y_source_indices = tmap cast_int32 y_source_floored;
     let x_source_indices = tmap cast_int32 x_source_floored;
     indices \<leftarrow> tf_stack [y_source_indices, x_source_indices] 1;
     offsets \<leftarrow> tf_stack [y_offset, x_offset] 1;
     Some (offsets, indices)
   }"

section \<open>The keypoint mask builder\<close>

definition get_valid_keypoint_mask_for_class ::
  "f32 tensor \<Rightarrow> int \<Rightarrow> f32 tensor \<Rightarrow> f32 tensor option \<Rightarrow> int list option \<Rightarrow>
   (f32 tensor \<times> f32 tensor) option" where
  "get_valid_keypoint_mask_for_class keypoint_coordinates class_id class_onehot class_weights
     keypoint_indices = do {
     num_keypoints \<leftarrow> shape_dim keypoint_coordinates 1;
     class_mask \<leftarrow> index_axis class_onehot 1 class_id;
     expanded_class_mask \<leftarrow> expand_dims class_mask (- 1);
     reshaped_class_mask \<leftarrow> tf_tile expanded_class_mask [1, num_keypoints];
     let not_nan = tf_logical_not (tf_is_nan keypoint_coordinates);
     not_nan_0 \<leftarrow> index_axis not_nan 2 0;
     mask \<leftarrow> tf_mul reshaped_class_mask (tmap f32_of_bool not_nan_0);
     keypoints_nan_to_zeros \<leftarrow>
       tf_where not_nan keypoint_coordinates (zeros_like keypoint_coordinates);
     mask \<leftarrow>
       (case class_weights of
          None \<Rightarrow> Some mask
        | Some weights \<Rightarrow> do {
            expanded_class_weight \<leftarrow> expand_dims weights (- 1);
            reshaped_class_weight \<leftarrow> tf_tile expanded_class_weight [1, num_keypoints];
            tf_mul mask reshaped_class_weight
          });
     (case keypoint_indices of
        None \<Rightarrow> Some (mask, keypoints_nan_to_zeros)
      | Some indices \<Rightarrow> do {
          mask \<leftarrow> tf_gather mask indices 1;
          keypoints_nan_to_zeros \<leftarrow> tf_gather keypoints_nan_to_zeros indices 1;
          Some (mask, keypoints_nan_to_zeros)
        })
   }"

section \<open>The region blackout mask\<close>

text \<open>
  Lines 234 to 248 of the module: the mask of shape \<open>[num_instances, height, width]\<close>
  that is 1.0 at the pixels inside a box.
\<close>

definition in_boxes :: "nat \<Rightarrow> nat \<Rightarrow> f32 tensor \<Rightarrow> f32 tensor option" where
  "in_boxes height width boxes = do {
     (y_grid, x_grid) \<leftarrow> image_shape_to_grids height width;
     y_grid \<leftarrow> expand_dims y_grid 0;
     x_grid \<leftarrow> expand_dims x_grid 0;
     boxes_0 \<leftarrow> slice_axis boxes 1 0 (Some 1);
     y_min \<leftarrow> expand_dims boxes_0 (- 1);
     boxes_1 \<leftarrow> slice_axis boxes 1 1 (Some 2);
     x_min \<leftarrow> expand_dims boxes_1 (- 1);
     boxes_2 \<leftarrow> slice_axis boxes 1 2 (Some 3);
     y_max \<leftarrow> expand_dims boxes_2 (- 1);
     boxes_3 \<leftarrow> slice_axis boxes 1 3 None;
     x_max \<leftarrow> expand_dims boxes_3 (- 1);
     y_ge \<leftarrow> tf_greater_equal y_grid y_min;
     y_le \<leftarrow> tf_less_equal y_grid y_max;
     y_in \<leftarrow> tf_logical_and y_ge y_le;
     x_ge \<leftarrow> tf_greater_equal x_grid x_min;
     x_le \<leftarrow> tf_less_equal x_grid x_max;
     x_in \<leftarrow> tf_logical_and x_ge x_le;
     both \<leftarrow> tf_logical_and y_in x_in;
     Some (tmap f32_of_bool both)
   }"

definition blackout_pixel_weights_by_box_regions ::
  "nat \<Rightarrow> nat \<Rightarrow> f32 tensor \<Rightarrow> bool tensor \<Rightarrow> f32 tensor option" where
  "blackout_pixel_weights_by_box_regions height width boxes blackout = do {
     in_boxes \<leftarrow> in_boxes height width boxes;
     blackout \<leftarrow> expand_dims blackout (- 1);
     blackout \<leftarrow> expand_dims blackout (- 1);
     blackout \<leftarrow> tf_tile blackout [1, height, width];
     selected_in_boxes \<leftarrow> tf_where blackout in_boxes (zeros_like in_boxes);
     out_boxes \<leftarrow> reduce_max selected_in_boxes 0;
     tf_sub (ones_like out_boxes) out_boxes
   }"

section \<open>The quantities of the specification\<close>

text \<open>
  The Gaussian response in the words of the specification: the squared distance of the
  grid point \<open>(gy, gx)\<close> to the floored centre \<open>(floor y, floor x)\<close>, divided by
  \<open>2 * sigma^2\<close>.
\<close>

definition spec_gaussian :: "real \<Rightarrow> real \<Rightarrow> real \<Rightarrow> real \<Rightarrow> real \<Rightarrow> real" where
  "spec_gaussian gy gx y x s =
     exp (- ((gy - of_int \<lfloor>y\<rfloor>)\<^sup>2 + (gx - of_int \<lfloor>x\<rfloor>)\<^sup>2) / (2 * s\<^sup>2))"

text \<open>The weight of instance \<open>i\<close>, 1 when the weights are omitted.\<close>

definition weight_of :: "real tensor option \<Rightarrow> nat \<Rightarrow> real" where
  "weight_of w i = (case w of None \<Rightarrow> 1 | Some wt \<Rightarrow> elem wt [i])"

text \<open>
  The contribution of instance \<open>i\<close> to channel \<open>ch\<close> at pixel \<open>(r, c)\<close>: its Gaussian
  response times its channel entry times its weight.
\<close>

definition contribution ::
  "real tensor \<Rightarrow> real tensor \<Rightarrow> real tensor \<Rightarrow> real tensor \<Rightarrow> real tensor \<Rightarrow> real tensor \<Rightarrow>
   real tensor option \<Rightarrow> nat \<Rightarrow> nat \<Rightarrow> nat \<Rightarrow> nat \<Rightarrow> real" where
  "contribution yg xg ys xs sg oh w r c ch i =
     spec_gaussian (elem yg [r, c]) (elem xg [r, c]) (elem ys [i]) (elem xs [i]) (elem sg [i])
       * elem oh [i, ch] * weight_of w i"

text \<open>The target coordinate of point \<open>j\<close>: the source coordinate when no target is given.\<close>

definition target_of :: "real tensor option \<Rightarrow> real tensor \<Rightarrow> nat \<Rightarrow> real" where
  "target_of t s j = (case t of None \<Rightarrow> elem s [j] | Some u \<Rightarrow> elem u [j])"

text \<open>Pixel \<open>(r, c)\<close> lies in box \<open>i\<close>, a row \<open>(y_min, x_min, y_max, x_max)\<close>, bounds included.\<close>

definition inside_box :: "real tensor \<Rightarrow> nat \<Rightarrow> nat \<Rightarrow> nat \<Rightarrow> bool" where
  "inside_box boxes i r c =
     (elem boxes [i, 0] \<le> real r \<and> real r \<le> elem boxes [i, 2] \<and>
      elem boxes [i, 1] \<le> real c \<and> real c \<le> elem boxes [i, 3])"

text \<open>The number of columns of the output: all keypoints, or the selected ones.\<close>

definition columns_of :: "int list option \<Rightarrow> nat \<Rightarrow> nat" where
  "columns_of keypoint_indices num_keypoints =
     (case keypoint_indices of None \<Rightarrow> num_keypoints | Some indices \<Rightarrow> length indices)"

text \<open>The column of the input that column \<open>k\<close> of the output is taken from.\<close>

definition column_of :: "int list option \<Rightarrow> nat \<Rightarrow> nat" where
  "column_of keypoint_indices k =
     (case keypoint_indices of None \<Rightarrow> k | Some indices \<Rightarrow> nat (indices ! k))"

section \<open>Properties\<close>

subsection \<open>Shapes, indices and maxima\<close>

lemma bdim_simps [simp]:
  "bdim a a = Some a" "bdim 1 b = Some b" "bdim a 1 = Some a"
  "bdim (Suc 0) b = Some b" "bdim a (Suc 0) = Some a"
  by (auto simp: bdim_def)

lemma broadcast_index_in_range [simp]: "i < d \<Longrightarrow> (if d = Suc 0 then 0 else i) = i"
  by auto

lemma max_along_cong:
  "n = m \<Longrightarrow> (\<And>i. i < m \<Longrightarrow> f i = g i) \<Longrightarrow> max_along n f = max_along m g"
proof -
  assume "n = m" and "\<And>i. i < m \<Longrightarrow> f i = g i"
  then have "map f [0..<n] = map g [0..<m]"
    by (intro map_cong) auto
  then show ?thesis
    by (simp only: max_along_def)
qed

lemma max_along_0 [simp]: "max_along 0 f = NegInf"
  by (simp add: max_along_def)

lemma max_along_Suc [simp]: "max_along (Suc n) f = f32_max (max_along n f) (f n)"
  by (simp add: max_along_def)

lemma max_along_Fin:
  "max_along n (\<lambda>i. Fin (h i)) = (if n = 0 then NegInf else Fin (Max (h ` {..<n})))"
proof (induction n)
  case 0
  then show ?case by simp
next
  case (Suc n)
  show ?case
  proof (cases "n = 0")
    case True
    then show ?thesis by (simp add: lessThan_Suc)
  next
    case False
    have "h ` {..<Suc n} = insert (h n) (h ` {..<n})"
      by (simp add: lessThan_Suc)
    moreover have "h ` {..<n} \<noteq> {}"
      using False by auto
    ultimately have "Max (h ` {..<Suc n}) = max (h n) (Max (h ` {..<n}))"
      by simp
    then show ?thesis
      using Suc False by (auto simp: max_def)
  qed
qed

lemma max_along_selected:
  "max_along n (\<lambda>i. if B i then f32_of_bool (Q i) else Fin 0) =
     (if n = 0 then NegInf else if (\<exists>i<n. B i \<and> Q i) then Fin 1 else Fin 0)"
  by (induction n) (auto simp: less_Suc_eq f32_of_bool_def)

lemmas tf_defs =
  expand_dims_def fin_def tmap_def tf_sub_def tf_add_def tf_mul_def tf_div_def binop_def
  broadcast_shape_def tf_floor_def tf_pow2_def tf_neg_def tf_exp_def scalar_def bindex_def
  tf_maximum_def tf_reshape_def reduce_max_def flat_index_def tf_stack_def tf_gather_def
  tf_where_def tf_tile_def index_axis_def slice_axis_def shape_dim_def zeros_like_def
  ones_like_def tf_is_nan_def tf_logical_not_def tf_greater_equal_def tf_less_equal_def
  tf_logical_and_def

subsection \<open>The grid generator\<close>

lemma image_shape_to_grids_eq:
  "image_shape_to_grids height width =
     Some (Tensor [height, width] (\<lambda>idx. Fin (real (idx ! 0))),
           Tensor [height, width] (\<lambda>idx. Fin (real (idx ! 1))))"
  by (simp add: image_shape_to_grids_def cast_float32_def meshgrid_xy_def)

text \<open>
  C8: for every height and width of at most \<open>2^24\<close> (the sizes that the cast to float32
  keeps exact), \<^verbatim>\<open>image_shape_to_grids\<close> returns (no error, also for a height or a
  width of 0, where the arrays are empty) a pair \<open>(y_grid, x_grid)\<close> of arrays of shape
  \<open>[height, width]\<close> with \<open>x_grid[r][c] = c\<close> and \<open>y_grid[r][c] = r\<close>, integers stored as
  reals, for all \<open>r < height\<close> and \<open>c < width\<close>.
\<close>

theorem image_shape_to_grids_values:
  "height \<le> 2 ^ 24 \<Longrightarrow> width \<le> 2 ^ 24 \<Longrightarrow>
   \<exists>y_grid x_grid.
     image_shape_to_grids height width = Some (y_grid, x_grid) \<and>
     shape y_grid = [height, width] \<and> shape x_grid = [height, width] \<and>
     (\<forall>r<height. \<forall>c<width.
        elem x_grid [r, c] = Fin (real c) \<and> elem y_grid [r, c] = Fin (real r))"
  by (simp add: image_shape_to_grids_eq)

text \<open>
  The grids of a 2 by 3 image at row 1, column 2, and the empty grids of height 0.
\<close>

theorem image_shape_to_grids_values_witness:
  "(\<exists>y_grid x_grid.
      image_shape_to_grids 2 3 = Some (y_grid, x_grid) \<and>
      shape y_grid = [2, 3] \<and> shape x_grid = [2, 3] \<and>
      elem x_grid [1, 2] = Fin 2 \<and> elem y_grid [1, 2] = Fin 1) \<and>
   (\<exists>y_grid x_grid.
      image_shape_to_grids 0 3 = Some (y_grid, x_grid) \<and>
      shape y_grid = [0, 3] \<and> shape x_grid = [0, 3])"
proof -
  have small: "(2::nat) \<le> 2 ^ 24" "(3::nat) \<le> 2 ^ 24" "(0::nat) \<le> 2 ^ 24"
    by simp_all
  from image_shape_to_grids_values [OF small(1) small(2)] obtain yg xg where
    g: "image_shape_to_grids 2 3 = Some (yg, xg)" "shape yg = [2, 3]" "shape xg = [2, 3]"
    and v: "\<forall>r<2. \<forall>c<3. elem xg [r, c] = Fin (real c) \<and> elem yg [r, c] = Fin (real r)"
    by blast
  from v have "elem xg [1, 2] = Fin 2 \<and> elem yg [1, 2] = Fin 1"
    by simp
  with g have first: "\<exists>y_grid x_grid.
      image_shape_to_grids 2 3 = Some (y_grid, x_grid) \<and>
      shape y_grid = [2, 3] \<and> shape x_grid = [2, 3] \<and>
      elem x_grid [1, 2] = Fin 2 \<and> elem y_grid [1, 2] = Fin 1"
    by blast
  from image_shape_to_grids_values [OF small(3) small(2)] have second: "\<exists>y_grid x_grid.
      image_shape_to_grids 0 3 = Some (y_grid, x_grid) \<and>
      shape y_grid = [0, 3] \<and> shape x_grid = [0, 3]"
    by blast
  from first second show ?thesis
    by blast
qed

subsection \<open>The heatmap renderer\<close>

lemma spec_gaussian_pos: "0 < spec_gaussian gy gx y x s"
  by (simp add: spec_gaussian_def)

lemma spec_gaussian_le_1: "spec_gaussian gy gx y x s \<le> 1"
proof -
  have "0 \<le> (gy - of_int \<lfloor>y\<rfloor>)\<^sup>2 + (gx - of_int \<lfloor>x\<rfloor>)\<^sup>2"
    by simp
  moreover have "0 \<le> 2 * s\<^sup>2"
    by simp
  ultimately have "- ((gy - of_int \<lfloor>y\<rfloor>)\<^sup>2 + (gx - of_int \<lfloor>x\<rfloor>)\<^sup>2) / (2 * s\<^sup>2) \<le> 0"
    by (intro divide_nonpos_nonneg) simp_all
  then show ?thesis
    by (simp add: spec_gaussian_def)
qed

lemma gaussian_map_char:
  assumes "shape yg = [H, W]" "shape xg = [H, W]" "shape ys = [N]" "shape xs = [N]" "shape sg = [N]"
  shows "\<exists>G. gaussian_map (fin yg) (fin xg) (fin ys) (fin xs) (fin sg) = Some G \<and>
     shape G = [H, W, N] \<and>
     (\<forall>r<H. \<forall>c<W. \<forall>i<N. elem sg [i] \<noteq> 0 \<longrightarrow>
        elem G [r, c, i] =
          Fin (spec_gaussian (elem yg [r, c]) (elem xg [r, c]) (elem ys [i]) (elem xs [i]) (elem sg [i])))"
  using assms
  by (simp add: gaussian_map_def tf_defs f32_sub_def power2_eq_square spec_gaussian_def add.commute)

lemma heatmap_char:
  assumes sh: "shape yg = [H, W]" "shape xg = [H, W]" "shape ys = [N]" "shape xs = [N]" "shape sg = [N]"
    and oh: "shape oh = [N, C]"
    and sg: "\<forall>i<N. elem sg [i] \<noteq> 0"
    and w: "\<forall>wt. w = Some wt \<longrightarrow> shape wt = [N]"
  shows "\<exists>T. coordinates_to_heatmap (fin yg) (fin xg) (fin ys) (fin xs) (fin sg) (fin oh) (map_option fin w) = Some T
     \<and> shape T = [H, W, C] \<and>
     (\<forall>r<H. \<forall>c<W. \<forall>ch<C. elem T [r, c, ch] =
        f32_max (max_along N (\<lambda>i. Fin (contribution yg xg ys xs sg oh w r c ch i))) (Fin 0))"
proof -
  from gaussian_map_char[OF sh] obtain G where
    G: "gaussian_map (fin yg) (fin xg) (fin ys) (fin xs) (fin sg) = Some G" "shape G = [H, W, N]"
     and Gv: "\<And>r c i. r < H \<Longrightarrow> c < W \<Longrightarrow> i < N \<Longrightarrow>
        elem G [r, c, i] = Fin (spec_gaussian (elem yg [r, c]) (elem xg [r, c]) (elem ys [i]) (elem xs [i]) (elem sg [i]))"
    using sg by blast
  show ?thesis
  proof (cases w)
    case None
    then show ?thesis using G(2) oh
      by (simp add: coordinates_to_heatmap_def G(1) combined_static_and_dynamic_shape_def)
         (simp add: tf_defs Gv contribution_def weight_of_def cong: max_along_cong)
  next
    case (Some wt)
    then have "shape wt = [N]" using w by simp
    then show ?thesis using G(2) oh Some
      by (simp add: coordinates_to_heatmap_def G(1) combined_static_and_dynamic_shape_def)
         (simp add: tf_defs Gv contribution_def weight_of_def cong: max_along_cong)
  qed
qed

lemma heatmap_value:
  assumes sh: "shape yg = [H, W]" "shape xg = [H, W]" "shape ys = [N]" "shape xs = [N]" "shape sg = [N]"
    and oh: "shape oh = [N, C]"
    and sg: "\<forall>i<N. elem sg [i] \<noteq> 0"
    and w: "\<forall>wt. w = Some wt \<longrightarrow> shape wt = [N]"
  shows "\<exists>T. coordinates_to_heatmap (fin yg) (fin xg) (fin ys) (fin xs) (fin sg) (fin oh) (map_option fin w) = Some T
     \<and> shape T = [H, W, C] \<and>
     (\<forall>r<H. \<forall>c<W. \<forall>ch<C. elem T [r, c, ch] =
        Fin (if N = 0 then 0 else max (Max (contribution yg xg ys xs sg oh w r c ch ` {..<N})) 0))"
  using heatmap_char[OF assms]
  by (auto simp: max_along_Fin max_def)

text \<open>
  C1: the instances are merged by an element-wise maximum, not a sum. For finite inputs of
  the documented shapes, at least one instance, positive sigma and non-negative channel
  entries and weights, the heatmap at every pixel \<open>(r, c)\<close> and channel \<open>ch\<close> is the
  maximum over the instances \<open>i\<close> of the weighted Gaussian contribution of \<open>i\<close> to
  \<open>ch\<close>; for two instances it is the larger of their two contributions.
\<close>

theorem heatmap_is_max_over_instances:
  assumes "shape yg = [H, W]" "shape xg = [H, W]"
    and "shape ys = [N]" "shape xs = [N]" "shape sg = [N]" "shape oh = [N, C]"
    and "\<forall>wt. w = Some wt \<longrightarrow> shape wt = [N]"
    and "0 < N"
    and "\<forall>i<N. 0 < elem sg [i]"
    and "\<forall>i<N. \<forall>ch<C. 0 \<le> elem oh [i, ch]"
    and "\<forall>i<N. 0 \<le> weight_of w i"
  shows "\<exists>T. coordinates_to_heatmap (fin yg) (fin xg) (fin ys) (fin xs) (fin sg) (fin oh)
               (map_option fin w) = Some T \<and>
     shape T = [H, W, C] \<and>
     (\<forall>r<H. \<forall>c<W. \<forall>ch<C.
        elem T [r, c, ch] = Fin (Max (contribution yg xg ys xs sg oh w r c ch ` {..<N})) \<and>
        (N = 2 \<longrightarrow>
           elem T [r, c, ch] =
             Fin (max (contribution yg xg ys xs sg oh w r c ch 0)
                      (contribution yg xg ys xs sg oh w r c ch 1))))"
proof -
  have sg: "\<forall>i<N. elem sg [i] \<noteq> 0"
    using assms(9) by auto
  from heatmap_value[OF assms(1-6) sg assms(7)] obtain T where
    T: "coordinates_to_heatmap (fin yg) (fin xg) (fin ys) (fin xs) (fin sg) (fin oh)
          (map_option fin w) = Some T" "shape T = [H, W, C]"
    and v: "\<And>r c ch. r < H \<Longrightarrow> c < W \<Longrightarrow> ch < C \<Longrightarrow> elem T [r, c, ch] =
        Fin (if N = 0 then 0 else max (Max (contribution yg xg ys xs sg oh w r c ch ` {..<N})) 0)"
    by blast
  have "elem T [r, c, ch] = Fin (Max (contribution yg xg ys xs sg oh w r c ch ` {..<N})) \<and>
        (N = 2 \<longrightarrow>
           elem T [r, c, ch] =
             Fin (max (contribution yg xg ys xs sg oh w r c ch 0)
                      (contribution yg xg ys xs sg oh w r c ch 1)))"
    if rc: "r < H" "c < W" "ch < C" for r c ch
  proof -
    let ?f = "contribution yg xg ys xs sg oh w r c ch"
    have nonneg: "0 \<le> ?f i" if "i < N" for i
      using that assms(10,11) rc(3) spec_gaussian_pos
      by (simp add: contribution_def less_imp_le)
    have "?f 0 \<in> ?f ` {..<N}"
      using \<open>0 < N\<close> by blast
    then have "?f 0 \<le> Max (?f ` {..<N})"
      by (intro Max_ge) simp_all
    moreover have "0 \<le> ?f 0"
      using nonneg \<open>0 < N\<close> by blast
    ultimately have "0 \<le> Max (?f ` {..<N})"
      by linarith
    then have main: "elem T [r, c, ch] = Fin (Max (?f ` {..<N}))"
      using v[OF rc] \<open>0 < N\<close> by (simp add: max_def)
    have "Max (?f ` {..<N}) = max (?f 0) (?f 1)" if "N = 2"
    proof -
      have "{..<N} = {0, 1}"
        using that by auto
      then show ?thesis
        by simp
    qed
    with main show ?thesis
      by simp
  qed
  with T show ?thesis
    by blast
qed

text \<open>
  C5, as amended: for finite inputs of the documented shapes whose sigma has a magnitude
  between \<open>2^-63\<close> and \<open>2^63\<close>, every entry of the heatmap of shape \<open>[H, W, C]\<close> is
  \<open>\<ge> 0\<close>; with no instance (\<open>N = 0\<close>) it is 0, the maximum of nothing being clamped from
  below; and when the weights are omitted and the channel entries lie in \<open>[0, 1]\<close>, it is
  \<open>\<le> 1\<close>.
\<close>

theorem heatmap_nonnegative:
  assumes "shape yg = [H, W]" "shape xg = [H, W]"
    and "shape ys = [N]" "shape xs = [N]" "shape sg = [N]" "shape oh = [N, C]"
    and "\<forall>i<N. 1 / 2 ^ 63 \<le> \<bar>elem sg [i]\<bar> \<and> \<bar>elem sg [i]\<bar> \<le> 2 ^ 63"
    and "\<forall>wt. w = Some wt \<longrightarrow> shape wt = [N]"
  shows "\<exists>T. coordinates_to_heatmap (fin yg) (fin xg) (fin ys) (fin xs) (fin sg) (fin oh)
               (map_option fin w) = Some T \<and>
     shape T = [H, W, C] \<and>
     (\<forall>r<H. \<forall>c<W. \<forall>ch<C.
        f32_le (Fin 0) (elem T [r, c, ch]) \<and>
        (N = 0 \<longrightarrow> elem T [r, c, ch] = Fin 0) \<and>
        (w = None \<and> (\<forall>i<N. 0 \<le> elem oh [i, ch] \<and> elem oh [i, ch] \<le> 1) \<longrightarrow>
           f32_le (elem T [r, c, ch]) (Fin 1)))"
proof -
  have sg: "\<forall>i<N. elem sg [i] \<noteq> 0"
  proof (intro allI impI)
    fix i
    assume "i < N"
    with assms(7) have "1 / 2 ^ 63 \<le> \<bar>elem sg [i]\<bar>"
      by simp
    moreover have "(0::real) < 1 / 2 ^ 63"
      by simp
    ultimately show "elem sg [i] \<noteq> 0"
      by linarith
  qed
  from heatmap_value[OF assms(1-6) sg assms(8)] obtain T where
    T: "coordinates_to_heatmap (fin yg) (fin xg) (fin ys) (fin xs) (fin sg) (fin oh)
          (map_option fin w) = Some T" "shape T = [H, W, C]"
    and v: "\<And>r c ch. r < H \<Longrightarrow> c < W \<Longrightarrow> ch < C \<Longrightarrow> elem T [r, c, ch] =
        Fin (if N = 0 then 0 else max (Max (contribution yg xg ys xs sg oh w r c ch ` {..<N})) 0)"
    by blast
  have "f32_le (Fin 0) (elem T [r, c, ch]) \<and>
        (N = 0 \<longrightarrow> elem T [r, c, ch] = Fin 0) \<and>
        (w = None \<and> (\<forall>i<N. 0 \<le> elem oh [i, ch] \<and> elem oh [i, ch] \<le> 1) \<longrightarrow>
           f32_le (elem T [r, c, ch]) (Fin 1))"
    if rc: "r < H" "c < W" "ch < C" for r c ch
  proof -
    let ?f = "contribution yg xg ys xs sg oh w r c ch"
    let ?v = "if N = 0 then 0 else max (Max (?f ` {..<N})) 0"
    have "?v \<le> 1" if unw: "w = None" and oh: "\<forall>i<N. 0 \<le> elem oh [i, ch] \<and> elem oh [i, ch] \<le> 1"
    proof (cases "N = 0")
      case True
      then show ?thesis by simp
    next
      case False
      have "?f i \<le> 1" if "i < N" for i
      proof -
        let ?g = "spec_gaussian (elem yg [r, c]) (elem xg [r, c]) (elem ys [i]) (elem xs [i]) (elem sg [i])"
        have "?g * elem oh [i, ch] \<le> 1 * 1"
          using spec_gaussian_le_1 spec_gaussian_pos oh that
          by (intro mult_mono) (simp_all add: less_imp_le)
        then show ?thesis
          using unw by (simp add: contribution_def weight_of_def)
      qed
      then have "Max (?f ` {..<N}) \<le> 1"
        using False by (intro Max.boundedI) auto
      then show ?thesis
        using False by simp
    qed
    moreover have "0 \<le> ?v"
      by simp
    moreover have "elem T [r, c, ch] = Fin ?v"
      by (rule v[OF rc])
    ultimately show ?thesis
      by auto
  qed
  with T show ?thesis
    by blast
qed





text \<open>
  Two instances of one class on a single pixel, with contributions 1 and
  \<open>exp (- 1 / 2)\<close>: the heatmap is 1, the larger one, and not their sum.
\<close>

theorem heatmap_is_max_over_instances_witness:
  "\<exists>T. coordinates_to_heatmap (fin (mat 1 [[0]])) (fin (mat 1 [[0]]))
          (fin (vec [1 / 2, 1 / 5])) (fin (vec [1 / 2, 17 / 10])) (fin (vec [1, 1]))
          (fin (mat 1 [[1], [1]])) None = Some T \<and>
        shape T = [1, 1, 1] \<and> elem T [0, 0, 0] = Fin 1 \<and> elem T [0, 0, 0] \<noteq> Fin (1 + exp (- 1 / 2))"
proof -
  let ?g = "mat 1 [[0 :: real]]"
  let ?ys = "vec [1 / 2, 1 / 5 :: real]" and ?xs = "vec [1 / 2, 17 / 10 :: real]"
  let ?sg = "vec [1, 1 :: real]" and ?oh = "mat 1 [[1], [1 :: real]]"
  let ?w = "None :: real tensor option"
  have "\<exists>T. coordinates_to_heatmap (fin ?g) (fin ?g) (fin ?ys) (fin ?xs) (fin ?sg) (fin ?oh)
               (map_option fin ?w) = Some T \<and>
     shape T = [1, 1, 1] \<and>
     (\<forall>r<1. \<forall>c<1. \<forall>ch<1.
        elem T [r, c, ch] = Fin (Max (contribution ?g ?g ?ys ?xs ?sg ?oh ?w r c ch ` {..<2})) \<and>
        ((2::nat) = 2 \<longrightarrow>
           elem T [r, c, ch] =
             Fin (max (contribution ?g ?g ?ys ?xs ?sg ?oh ?w r c ch 0)
                      (contribution ?g ?g ?ys ?xs ?sg ?oh ?w r c ch 1))))"
    by (rule heatmap_is_max_over_instances)
       (simp_all add: vec_def mat_def weight_of_def less_2_cases_iff)
  then obtain T where
    T: "coordinates_to_heatmap (fin ?g) (fin ?g) (fin ?ys) (fin ?xs) (fin ?sg) (fin ?oh) None = Some T"
       "shape T = [1, 1, 1]"
    and v: "elem T [0, 0, 0] =
             Fin (max (contribution ?g ?g ?ys ?xs ?sg ?oh ?w 0 0 0 0)
                      (contribution ?g ?g ?ys ?xs ?sg ?oh ?w 0 0 0 1))"
    by auto
  have "contribution ?g ?g ?ys ?xs ?sg ?oh ?w 0 0 0 0 = 1"
    by (simp add: contribution_def spec_gaussian_def weight_of_def vec_def mat_def)
  moreover have "contribution ?g ?g ?ys ?xs ?sg ?oh ?w 0 0 0 1 = exp (- 1 / 2)"
    by (simp add: contribution_def spec_gaussian_def weight_of_def vec_def mat_def)
  ultimately have "elem T [0, 0, 0] = Fin 1"
    using v by simp
  with T show ?thesis
    by simp
qed

text \<open>
  No instance at all gives the heatmap 0; one unweighted instance of sigma 1 gives a value
  in \<open>[0, 1]\<close>.
\<close>

theorem heatmap_nonnegative_witness:
  "(\<exists>T. coordinates_to_heatmap (fin (mat 1 [[0]])) (fin (mat 1 [[0]]))
          (fin (vec [])) (fin (vec [])) (fin (vec [])) (fin (mat 1 [])) None = Some T \<and>
        shape T = [1, 1, 1] \<and> elem T [0, 0, 0] = Fin 0) \<and>
   (\<exists>T. coordinates_to_heatmap (fin (mat 1 [[0]])) (fin (mat 1 [[0]]))
          (fin (vec [1 / 2])) (fin (vec [17 / 10])) (fin (vec [1])) (fin (mat 1 [[1]])) None = Some T \<and>
        shape T = [1, 1, 1] \<and> f32_le (Fin 0) (elem T [0, 0, 0]) \<and> f32_le (elem T [0, 0, 0]) (Fin 1))"
proof -
  let ?g = "mat 1 [[0 :: real]]"
  let ?e = "vec ([] :: real list)" and ?oe = "mat 1 ([] :: real list list)"
  let ?w = "None :: real tensor option"
  have "\<exists>T. coordinates_to_heatmap (fin ?g) (fin ?g) (fin ?e) (fin ?e) (fin ?e) (fin ?oe)
               (map_option fin ?w) = Some T \<and>
     shape T = [1, 1, 1] \<and>
     (\<forall>r<1. \<forall>c<1. \<forall>ch<1.
        f32_le (Fin 0) (elem T [r, c, ch]) \<and>
        ((0::nat) = 0 \<longrightarrow> elem T [r, c, ch] = Fin 0) \<and>
        (?w = None \<and> (\<forall>i<0. 0 \<le> elem ?oe [i, ch] \<and> elem ?oe [i, ch] \<le> 1) \<longrightarrow>
           f32_le (elem T [r, c, ch]) (Fin 1)))"
    by (rule heatmap_nonnegative) (simp_all add: vec_def mat_def)
  then have first: "\<exists>T. coordinates_to_heatmap (fin ?g) (fin ?g) (fin ?e) (fin ?e) (fin ?e) (fin ?oe) None
      = Some T \<and> shape T = [1, 1, 1] \<and> elem T [0, 0, 0] = Fin 0"
    by auto
  let ?ys = "vec [1 / 2 :: real]" and ?xs = "vec [17 / 10 :: real]"
  let ?sg = "vec [1 :: real]" and ?oh = "mat 1 [[1 :: real]]"
  have "\<exists>T. coordinates_to_heatmap (fin ?g) (fin ?g) (fin ?ys) (fin ?xs) (fin ?sg) (fin ?oh)
               (map_option fin ?w) = Some T \<and>
     shape T = [1, 1, 1] \<and>
     (\<forall>r<1. \<forall>c<1. \<forall>ch<1.
        f32_le (Fin 0) (elem T [r, c, ch]) \<and>
        ((1::nat) = 0 \<longrightarrow> elem T [r, c, ch] = Fin 0) \<and>
        (?w = None \<and> (\<forall>i<1. 0 \<le> elem ?oh [i, ch] \<and> elem ?oh [i, ch] \<le> 1) \<longrightarrow>
           f32_le (elem T [r, c, ch]) (Fin 1)))"
    by (rule heatmap_nonnegative) (simp_all add: vec_def mat_def)
  then have second: "\<exists>T. coordinates_to_heatmap (fin ?g) (fin ?g) (fin ?ys) (fin ?xs) (fin ?sg) (fin ?oh) None
      = Some T \<and> shape T = [1, 1, 1] \<and> f32_le (Fin 0) (elem T [0, 0, 0]) \<and>
        f32_le (elem T [0, 0, 0]) (Fin 1)"
    by (auto simp: mat_def)
  from first second show ?thesis
    by (rule conjI)
qed

text \<open>
  The heatmap for any sigma, zero included, without weights: the model of the division is
  left as it is.
\<close>

lemma gaussian_map_any_sigma:
  assumes "shape yg = [H, W]" "shape xg = [H, W]" "shape ys = [N]" "shape xs = [N]" "shape sg = [N]"
  shows "\<exists>G. gaussian_map (fin yg) (fin xg) (fin ys) (fin xs) (fin sg) = Some G \<and>
     shape G = [H, W, N] \<and>
     (\<forall>r<H. \<forall>c<W. \<forall>i<N.
        elem G [r, c, i] =
          f32_exp (f32_div
            (Fin (- ((elem xg [r, c] - of_int \<lfloor>elem xs [i]\<rfloor>) * (elem xg [r, c] - of_int \<lfloor>elem xs [i]\<rfloor>)
                   + (elem yg [r, c] - of_int \<lfloor>elem ys [i]\<rfloor>) * (elem yg [r, c] - of_int \<lfloor>elem ys [i]\<rfloor>))))
            (Fin (2 * elem sg [i] * elem sg [i]))))"
  using assms
  by (simp add: gaussian_map_def tf_defs f32_sub_def)

lemma heatmap_unweighted_any_sigma:
  assumes sh: "shape yg = [H, W]" "shape xg = [H, W]" "shape ys = [N]" "shape xs = [N]" "shape sg = [N]"
    and oh: "shape oh = [N, C]"
  shows "\<exists>T. coordinates_to_heatmap (fin yg) (fin xg) (fin ys) (fin xs) (fin sg) (fin oh) None = Some T
     \<and> shape T = [H, W, C] \<and>
     (\<forall>r<H. \<forall>c<W. \<forall>ch<C. elem T [r, c, ch] =
        f32_max (max_along N (\<lambda>i. f32_mul
          (f32_exp (f32_div
            (Fin (- ((elem xg [r, c] - of_int \<lfloor>elem xs [i]\<rfloor>) * (elem xg [r, c] - of_int \<lfloor>elem xs [i]\<rfloor>)
                   + (elem yg [r, c] - of_int \<lfloor>elem ys [i]\<rfloor>) * (elem yg [r, c] - of_int \<lfloor>elem ys [i]\<rfloor>))))
            (Fin (2 * elem sg [i] * elem sg [i]))))
          (Fin (elem oh [i, ch])))) (Fin 0))"
proof -
  from gaussian_map_any_sigma[OF sh] obtain G where
    "gaussian_map (fin yg) (fin xg) (fin ys) (fin xs) (fin sg) = Some G \<and>
     shape G = [H, W, N] \<and>
     (\<forall>r<H. \<forall>c<W. \<forall>i<N.
        elem G [r, c, i] =
          f32_exp (f32_div
            (Fin (- ((elem xg [r, c] - of_int \<lfloor>elem xs [i]\<rfloor>) * (elem xg [r, c] - of_int \<lfloor>elem xs [i]\<rfloor>)
                   + (elem yg [r, c] - of_int \<lfloor>elem ys [i]\<rfloor>) * (elem yg [r, c] - of_int \<lfloor>elem ys [i]\<rfloor>))))
            (Fin (2 * elem sg [i] * elem sg [i]))))" ..
  then have G: "gaussian_map (fin yg) (fin xg) (fin ys) (fin xs) (fin sg) = Some G"
      "shape G = [H, W, N]"
    and Gv: "\<And>r c i. r < H \<Longrightarrow> c < W \<Longrightarrow> i < N \<Longrightarrow>
        elem G [r, c, i] =
          f32_exp (f32_div
            (Fin (- ((elem xg [r, c] - of_int \<lfloor>elem xs [i]\<rfloor>) * (elem xg [r, c] - of_int \<lfloor>elem xs [i]\<rfloor>)
                   + (elem yg [r, c] - of_int \<lfloor>elem ys [i]\<rfloor>) * (elem yg [r, c] - of_int \<lfloor>elem ys [i]\<rfloor>))))
            (Fin (2 * elem sg [i] * elem sg [i])))"
    by simp_all
  show ?thesis
    using G(2) oh
    by (simp add: coordinates_to_heatmap_def G(1) combined_static_and_dynamic_shape_def)
       (simp add: tf_defs Gv cong: max_along_cong)
qed

text \<open>
  C5 as stated, for every input, fails: one instance of sigma 0 whose centre is the pixel
  gives \<open>0 / 0\<close>, and the heatmap there is NaN, which is not \<open>\<ge> 0\<close>.
\<close>

theorem heatmap_nan_counterexample:
  "coordinates_to_heatmap (fin (mat 1 [[0]])) (fin (mat 1 [[0]])) (fin (vec [0])) (fin (vec [0]))
     (fin (vec [0])) (fin (mat 1 [[1]])) None \<noteq> None \<and>
   elem (the (coordinates_to_heatmap (fin (mat 1 [[0]])) (fin (mat 1 [[0]])) (fin (vec [0]))
     (fin (vec [0])) (fin (vec [0])) (fin (mat 1 [[1]])) None)) [0, 0, 0] = NaN \<and>
   \<not> f32_le (Fin 0) NaN"
proof -
  let ?g = "mat 1 [[0 :: real]]" and ?z = "vec [0 :: real]" and ?oh = "mat 1 [[1 :: real]]"
  have sh: "shape ?g = [1, 1]" "shape ?z = [1]" "shape ?oh = [1, 1]"
    by (simp_all add: mat_def vec_def)
  from heatmap_unweighted_any_sigma[OF sh(1) sh(1) sh(2) sh(2) sh(2) sh(3)] obtain T where
    "coordinates_to_heatmap (fin ?g) (fin ?g) (fin ?z) (fin ?z) (fin ?z) (fin ?oh) None = Some T \<and>
     shape T = [1, 1, 1] \<and>
     (\<forall>r<1. \<forall>c<1. \<forall>ch<1. elem T [r, c, ch] =
        f32_max (max_along 1 (\<lambda>i. f32_mul
          (f32_exp (f32_div
            (Fin (- ((elem ?g [r, c] - of_int \<lfloor>elem ?z [i]\<rfloor>) * (elem ?g [r, c] - of_int \<lfloor>elem ?z [i]\<rfloor>)
                   + (elem ?g [r, c] - of_int \<lfloor>elem ?z [i]\<rfloor>) * (elem ?g [r, c] - of_int \<lfloor>elem ?z [i]\<rfloor>))))
            (Fin (2 * elem ?z [i] * elem ?z [i]))))
          (Fin (elem ?oh [i, ch])))) (Fin 0))" ..
  then have T: "coordinates_to_heatmap (fin ?g) (fin ?g) (fin ?z) (fin ?z) (fin ?z) (fin ?oh) None = Some T"
    and v: "elem T [0, 0, 0] =
        f32_max (max_along 1 (\<lambda>i. f32_mul
          (f32_exp (f32_div
            (Fin (- ((elem ?g [0, 0] - of_int \<lfloor>elem ?z [i]\<rfloor>) * (elem ?g [0, 0] - of_int \<lfloor>elem ?z [i]\<rfloor>)
                   + (elem ?g [0, 0] - of_int \<lfloor>elem ?z [i]\<rfloor>) * (elem ?g [0, 0] - of_int \<lfloor>elem ?z [i]\<rfloor>))))
            (Fin (2 * elem ?z [i] * elem ?z [i]))))
          (Fin (elem ?oh [i, 0])))) (Fin 0)"
    by simp_all
  from v have "elem T [0, 0, 0] = NaN"
    by (simp add: mat_def vec_def f32_inf_def)
  with T show ?thesis
    by simp
qed

subsection \<open>The offset and index computer\<close>

lemma cast_int32_of_int:
  "- (2 ^ 31) \<le> z \<Longrightarrow> z < 2 ^ 31 \<Longrightarrow> cast_int32 (Fin (of_int z)) = Some z"
  by simp

lemma offsets_char:
  assumes "shape ys = [M]" "shape xs = [M]"
    and "\<forall>t. yt = Some t \<longrightarrow> shape t = [M]" "\<forall>t. xt = Some t \<longrightarrow> shape t = [M]"
  shows "\<exists>offsets indices.
     compute_floor_offsets_with_indices (fin ys) (fin xs) (map_option fin yt) (map_option fin xt)
       = Some (offsets, indices) \<and>
     shape offsets = [M, 2] \<and> shape indices = [M, 2] \<and>
     (\<forall>j<M. elem indices [j, 0] = cast_int32 (Fin (of_int \<lfloor>elem ys [j]\<rfloor>)) \<and>
            elem indices [j, 1] = cast_int32 (Fin (of_int \<lfloor>elem xs [j]\<rfloor>)) \<and>
            elem offsets [j, 0] = Fin (target_of yt ys j - of_int \<lfloor>elem ys [j]\<rfloor>) \<and>
            elem offsets [j, 1] = Fin (target_of xt xs j - of_int \<lfloor>elem xs [j]\<rfloor>))"
  using assms
  by (cases yt; cases xt)
     (simp_all add: compute_floor_offsets_with_indices_def tf_defs f32_sub_def target_of_def
        del: cast_int32.simps)

text \<open>
  C3: for finite sources of length \<open>M\<close> (and targets of length \<open>M\<close>, or none), the call
  returns offsets and indices of shape \<open>[M, 2]\<close>, each row ordered \<open>(y, x)\<close>: the index
  is the floored source as an integer (inside the int32 range) and the offset is the
  target minus the floored source, the target being the source when it is omitted; the
  target is never floored.
\<close>

theorem floor_offsets_and_indices:
  assumes "shape y_source = [M]" "shape x_source = [M]"
    and "\<forall>t. y_target = Some t \<longrightarrow> shape t = [M]"
    and "\<forall>t. x_target = Some t \<longrightarrow> shape t = [M]"
  shows "\<exists>offsets indices.
     compute_floor_offsets_with_indices (fin y_source) (fin x_source)
       (map_option fin y_target) (map_option fin x_target) = Some (offsets, indices) \<and>
     shape offsets = [M, 2] \<and> shape indices = [M, 2] \<and>
     (\<forall>j<M.
        (- (2 ^ 31) \<le> \<lfloor>elem y_source [j]\<rfloor> \<and> \<lfloor>elem y_source [j]\<rfloor> < 2 ^ 31 \<longrightarrow>
           elem indices [j, 0] = Some \<lfloor>elem y_source [j]\<rfloor>) \<and>
        (- (2 ^ 31) \<le> \<lfloor>elem x_source [j]\<rfloor> \<and> \<lfloor>elem x_source [j]\<rfloor> < 2 ^ 31 \<longrightarrow>
           elem indices [j, 1] = Some \<lfloor>elem x_source [j]\<rfloor>) \<and>
        elem offsets [j, 0] = Fin (target_of y_target y_source j - of_int \<lfloor>elem y_source [j]\<rfloor>) \<and>
        elem offsets [j, 1] = Fin (target_of x_target x_source j - of_int \<lfloor>elem x_source [j]\<rfloor>))"
proof -
  from offsets_char[OF assms] obtain offsets indices where
    r: "compute_floor_offsets_with_indices (fin y_source) (fin x_source)
       (map_option fin y_target) (map_option fin x_target) = Some (offsets, indices)"
       "shape offsets = [M, 2]" "shape indices = [M, 2]"
    and v: "\<forall>j<M. elem indices [j, 0] = cast_int32 (Fin (of_int \<lfloor>elem y_source [j]\<rfloor>)) \<and>
            elem indices [j, 1] = cast_int32 (Fin (of_int \<lfloor>elem x_source [j]\<rfloor>)) \<and>
            elem offsets [j, 0] = Fin (target_of y_target y_source j - of_int \<lfloor>elem y_source [j]\<rfloor>) \<and>
            elem offsets [j, 1] = Fin (target_of x_target x_source j - of_int \<lfloor>elem x_source [j]\<rfloor>)"
    by blast
  from v have "\<forall>j<M.
        (- (2 ^ 31) \<le> \<lfloor>elem y_source [j]\<rfloor> \<and> \<lfloor>elem y_source [j]\<rfloor> < 2 ^ 31 \<longrightarrow>
           elem indices [j, 0] = Some \<lfloor>elem y_source [j]\<rfloor>) \<and>
        (- (2 ^ 31) \<le> \<lfloor>elem x_source [j]\<rfloor> \<and> \<lfloor>elem x_source [j]\<rfloor> < 2 ^ 31 \<longrightarrow>
           elem indices [j, 1] = Some \<lfloor>elem x_source [j]\<rfloor>) \<and>
        elem offsets [j, 0] = Fin (target_of y_target y_source j - of_int \<lfloor>elem y_source [j]\<rfloor>) \<and>
        elem offsets [j, 1] = Fin (target_of x_target x_source j - of_int \<lfloor>elem x_source [j]\<rfloor>)"
    using cast_int32_of_int by (auto simp del: cast_int32.simps)
  with r show ?thesis
    by blast
qed

text \<open>
  The source \<open>(3.7, 2.2)\<close> with no target has indices \<open>(3, 2)\<close> and offsets
  \<open>(0.7, 0.2)\<close>; the source 2.5 with target 5.0 has index 2 and offset \<open>5.0 - 2 = 3.0\<close>.
\<close>

theorem floor_offsets_and_indices_witness:
  "(\<exists>offsets indices.
      compute_floor_offsets_with_indices (fin (vec [37 / 10])) (fin (vec [22 / 10])) None None
        = Some (offsets, indices) \<and>
      shape offsets = [1, 2] \<and> shape indices = [1, 2] \<and>
      elem indices [0, 0] = Some 3 \<and> elem indices [0, 1] = Some 2 \<and>
      elem offsets [0, 0] = Fin (7 / 10) \<and> elem offsets [0, 1] = Fin (2 / 10)) \<and>
   (\<exists>offsets indices.
      compute_floor_offsets_with_indices (fin (vec [5 / 2])) (fin (vec [5 / 2]))
        (Some (fin (vec [5]))) (Some (fin (vec [5]))) = Some (offsets, indices) \<and>
      elem indices [0, 0] = Some 2 \<and> elem offsets [0, 0] = Fin 3)"
proof -
  let ?ys = "vec [37 / 10 :: real]" and ?xs = "vec [22 / 10 :: real]"
  let ?n = "None :: real tensor option"
  have "\<exists>offsets indices.
     compute_floor_offsets_with_indices (fin ?ys) (fin ?xs) (map_option fin ?n) (map_option fin ?n)
       = Some (offsets, indices) \<and>
     shape offsets = [1, 2] \<and> shape indices = [1, 2] \<and>
     (\<forall>j<1.
        (- (2 ^ 31) \<le> \<lfloor>elem ?ys [j]\<rfloor> \<and> \<lfloor>elem ?ys [j]\<rfloor> < 2 ^ 31 \<longrightarrow>
           elem indices [j, 0] = Some \<lfloor>elem ?ys [j]\<rfloor>) \<and>
        (- (2 ^ 31) \<le> \<lfloor>elem ?xs [j]\<rfloor> \<and> \<lfloor>elem ?xs [j]\<rfloor> < 2 ^ 31 \<longrightarrow>
           elem indices [j, 1] = Some \<lfloor>elem ?xs [j]\<rfloor>) \<and>
        elem offsets [j, 0] = Fin (target_of ?n ?ys j - of_int \<lfloor>elem ?ys [j]\<rfloor>) \<and>
        elem offsets [j, 1] = Fin (target_of ?n ?xs j - of_int \<lfloor>elem ?xs [j]\<rfloor>))"
    by (rule floor_offsets_and_indices) (simp_all add: vec_def)
  then have first: "\<exists>offsets indices.
      compute_floor_offsets_with_indices (fin ?ys) (fin ?xs) None None = Some (offsets, indices) \<and>
      shape offsets = [1, 2] \<and> shape indices = [1, 2] \<and>
      elem indices [0, 0] = Some 3 \<and> elem indices [0, 1] = Some 2 \<and>
      elem offsets [0, 0] = Fin (7 / 10) \<and> elem offsets [0, 1] = Fin (2 / 10)"
    by (auto simp: vec_def target_of_def)
  let ?s = "vec [5 / 2 :: real]" and ?t = "Some (vec [5 :: real])"
  have "\<exists>offsets indices.
     compute_floor_offsets_with_indices (fin ?s) (fin ?s) (map_option fin ?t) (map_option fin ?t)
       = Some (offsets, indices) \<and>
     shape offsets = [1, 2] \<and> shape indices = [1, 2] \<and>
     (\<forall>j<1.
        (- (2 ^ 31) \<le> \<lfloor>elem ?s [j]\<rfloor> \<and> \<lfloor>elem ?s [j]\<rfloor> < 2 ^ 31 \<longrightarrow>
           elem indices [j, 0] = Some \<lfloor>elem ?s [j]\<rfloor>) \<and>
        (- (2 ^ 31) \<le> \<lfloor>elem ?s [j]\<rfloor> \<and> \<lfloor>elem ?s [j]\<rfloor> < 2 ^ 31 \<longrightarrow>
           elem indices [j, 1] = Some \<lfloor>elem ?s [j]\<rfloor>) \<and>
        elem offsets [j, 0] = Fin (target_of ?t ?s j - of_int \<lfloor>elem ?s [j]\<rfloor>) \<and>
        elem offsets [j, 1] = Fin (target_of ?t ?s j - of_int \<lfloor>elem ?s [j]\<rfloor>))"
    by (rule floor_offsets_and_indices) (simp_all add: vec_def)
  then have second: "\<exists>offsets indices.
      compute_floor_offsets_with_indices (fin ?s) (fin ?s)
        (Some (fin (vec [5]))) (Some (fin (vec [5]))) = Some (offsets, indices) \<and>
      elem indices [0, 0] = Some 2 \<and> elem offsets [0, 0] = Fin 3"
    by (auto simp: vec_def target_of_def)
  from first second show ?thesis
    by blast
qed

subsection \<open>The keypoint mask builder\<close>

lemma keypoint_char:
  assumes "shape kp = [N, K, 2]" "shape oh = [N, C]" "cid < C"
    and "\<forall>wt. w = Some wt \<longrightarrow> shape wt = [N]"
    and "\<forall>l. ki = Some l \<longrightarrow> list_all (\<lambda>k. 0 \<le> k \<and> k < int K) l"
  shows "\<exists>mask kps.
     get_valid_keypoint_mask_for_class kp (int cid) (fin oh) (map_option fin w) ki = Some (mask, kps) \<and>
     shape mask = [N, columns_of ki K] \<and>
     shape kps = [N, columns_of ki K, 2] \<and>
     (\<forall>i<N. \<forall>k<columns_of ki K.
        elem mask [i, k] =
          Fin (elem oh [i, cid] * (if is_nan (elem kp [i, column_of ki k, 0]) then 0 else 1)
               * weight_of w i) \<and>
        (\<forall>d<2. elem kps [i, k, d] =
           (if is_nan (elem kp [i, column_of ki k, d]) then Fin 0
            else elem kp [i, column_of ki k, d])))"
  using assms
  by (cases w; cases ki)
     (auto simp add: get_valid_keypoint_mask_for_class_def tf_defs weight_of_def column_of_def
        columns_of_def f32_of_bool_def list_all_length)

text \<open>
  C4, as amended: every cell of the returned mask is 0 or the product of the class
  membership \<open>class_onehot[i, class_id]\<close> and the weight of instance \<open>i\<close> (1 when
  the weights are omitted); it is 0 or exactly the weight when the membership is 0 or 1.
\<close>

theorem mask_zero_or_weighted_membership:
  assumes "shape kp = [N, K, 2]" "shape oh = [N, C]" "cid < C"
    and "\<forall>wt. w = Some wt \<longrightarrow> shape wt = [N]"
    and "\<forall>l. ki = Some l \<longrightarrow> list_all (\<lambda>k. 0 \<le> k \<and> k < int K) l"
  shows "\<exists>mask kps.
     get_valid_keypoint_mask_for_class kp (int cid) (fin oh) (map_option fin w) ki = Some (mask, kps) \<and>
     shape mask = [N, columns_of ki K] \<and>
     (\<forall>i<N. \<forall>k<columns_of ki K.
        (elem mask [i, k] = Fin 0 \<or> elem mask [i, k] = Fin (elem oh [i, cid] * weight_of w i)) \<and>
        (elem oh [i, cid] = 0 \<or> elem oh [i, cid] = 1 \<longrightarrow>
           elem mask [i, k] = Fin 0 \<or> elem mask [i, k] = Fin (weight_of w i)))"
proof -
  from keypoint_char[OF assms] obtain mask kps where
    r: "get_valid_keypoint_mask_for_class kp (int cid) (fin oh) (map_option fin w) ki = Some (mask, kps)"
       "shape mask = [N, columns_of ki K]"
    and v: "\<forall>i<N. \<forall>k<columns_of ki K.
        elem mask [i, k] =
          Fin (elem oh [i, cid] * (if is_nan (elem kp [i, column_of ki k, 0]) then 0 else 1)
               * weight_of w i)"
    by blast
  from v have "\<forall>i<N. \<forall>k<columns_of ki K.
        (elem mask [i, k] = Fin 0 \<or> elem mask [i, k] = Fin (elem oh [i, cid] * weight_of w i)) \<and>
        (elem oh [i, cid] = 0 \<or> elem oh [i, cid] = 1 \<longrightarrow>
           elem mask [i, k] = Fin 0 \<or> elem mask [i, k] = Fin (weight_of w i))"
    by auto
  with r show ?thesis
    by blast
qed

text \<open>
  C7: a keypoint whose y coordinate is NaN has mask 0, whatever the (finite) class
  membership and weight; when y and x are both NaN its sanitized coordinates are
  \<open>(0, 0)\<close>. The mask reads only coordinate channel 0, and every NaN coordinate is
  replaced by 0 and every other coordinate kept, whatever the mask.
\<close>

theorem nan_keypoint_masked_and_zeroed:
  assumes "shape kp = [N, K, 2]" "shape oh = [N, C]" "cid < C"
    and "\<forall>wt. w = Some wt \<longrightarrow> shape wt = [N]"
    and "\<forall>l. ki = Some l \<longrightarrow> list_all (\<lambda>k. 0 \<le> k \<and> k < int K) l"
  shows "\<exists>mask kps.
     get_valid_keypoint_mask_for_class kp (int cid) (fin oh) (map_option fin w) ki = Some (mask, kps) \<and>
     shape mask = [N, columns_of ki K] \<and>
     shape kps = [N, columns_of ki K, 2] \<and>
     (\<forall>i<N. \<forall>k<columns_of ki K.
        (is_nan (elem kp [i, column_of ki k, 0]) \<longrightarrow> elem mask [i, k] = Fin 0) \<and>
        (is_nan (elem kp [i, column_of ki k, 0]) \<and> is_nan (elem kp [i, column_of ki k, 1]) \<longrightarrow>
           elem kps [i, k, 0] = Fin 0 \<and> elem kps [i, k, 1] = Fin 0) \<and>
        elem mask [i, k] =
          Fin (elem oh [i, cid] * (if is_nan (elem kp [i, column_of ki k, 0]) then 0 else 1)
               * weight_of w i) \<and>
        (\<forall>d<2. elem kps [i, k, d] =
           (if is_nan (elem kp [i, column_of ki k, d]) then Fin 0
            else elem kp [i, column_of ki k, d])))"
proof -
  from keypoint_char[OF assms] obtain mask kps where
    r: "get_valid_keypoint_mask_for_class kp (int cid) (fin oh) (map_option fin w) ki = Some (mask, kps)"
       "shape mask = [N, columns_of ki K]" "shape kps = [N, columns_of ki K, 2]"
    and v: "\<forall>i<N. \<forall>k<columns_of ki K.
        elem mask [i, k] =
          Fin (elem oh [i, cid] * (if is_nan (elem kp [i, column_of ki k, 0]) then 0 else 1)
               * weight_of w i) \<and>
        (\<forall>d<2. elem kps [i, k, d] =
           (if is_nan (elem kp [i, column_of ki k, d]) then Fin 0
            else elem kp [i, column_of ki k, d]))"
    by blast
  have "(is_nan (elem kp [i, column_of ki k, 0]) \<longrightarrow> elem mask [i, k] = Fin 0) \<and>
        (is_nan (elem kp [i, column_of ki k, 0]) \<and> is_nan (elem kp [i, column_of ki k, 1]) \<longrightarrow>
           elem kps [i, k, 0] = Fin 0 \<and> elem kps [i, k, 1] = Fin 0) \<and>
        elem mask [i, k] =
          Fin (elem oh [i, cid] * (if is_nan (elem kp [i, column_of ki k, 0]) then 0 else 1)
               * weight_of w i) \<and>
        (\<forall>d<2. elem kps [i, k, d] =
           (if is_nan (elem kp [i, column_of ki k, d]) then Fin 0
            else elem kp [i, column_of ki k, d]))"
    if ik: "i < N" "k < columns_of ki K" for i k
  proof -
    from v ik have m: "elem mask [i, k] =
          Fin (elem oh [i, cid] * (if is_nan (elem kp [i, column_of ki k, 0]) then 0 else 1)
               * weight_of w i)"
      and s: "\<forall>d<2. elem kps [i, k, d] =
           (if is_nan (elem kp [i, column_of ki k, d]) then Fin 0
            else elem kp [i, column_of ki k, d])"
      by blast+
    from s have "elem kps [i, k, 0] =
           (if is_nan (elem kp [i, column_of ki k, 0]) then Fin 0 else elem kp [i, column_of ki k, 0])"
      and "elem kps [i, k, 1] =
           (if is_nan (elem kp [i, column_of ki k, 1]) then Fin 0 else elem kp [i, column_of ki k, 1])"
      by simp_all
    with m s show ?thesis
      by simp
  qed
  with r show ?thesis
    by blast
qed

text \<open>
  C9: a keypoint whose y coordinate is not NaN and whose x coordinate is NaN is not
  masked out: its mask is the class membership times the weight; its sanitized y is
  unchanged and its sanitized x is 0.
\<close>

theorem nan_x_only_not_masked:
  assumes "shape kp = [N, K, 2]" "shape oh = [N, C]" "cid < C"
    and "\<forall>wt. w = Some wt \<longrightarrow> shape wt = [N]"
    and "\<forall>l. ki = Some l \<longrightarrow> list_all (\<lambda>k. 0 \<le> k \<and> k < int K) l"
  shows "\<exists>mask kps.
     get_valid_keypoint_mask_for_class kp (int cid) (fin oh) (map_option fin w) ki = Some (mask, kps) \<and>
     (\<forall>i<N. \<forall>k<columns_of ki K.
        \<not> is_nan (elem kp [i, column_of ki k, 0]) \<and> is_nan (elem kp [i, column_of ki k, 1]) \<longrightarrow>
        elem mask [i, k] = Fin (elem oh [i, cid] * weight_of w i) \<and>
        elem kps [i, k, 0] = elem kp [i, column_of ki k, 0] \<and>
        elem kps [i, k, 1] = Fin 0)"
proof -
  from keypoint_char[OF assms] obtain mask kps where
    r: "get_valid_keypoint_mask_for_class kp (int cid) (fin oh) (map_option fin w) ki = Some (mask, kps)"
    and v: "\<forall>i<N. \<forall>k<columns_of ki K.
        elem mask [i, k] =
          Fin (elem oh [i, cid] * (if is_nan (elem kp [i, column_of ki k, 0]) then 0 else 1)
               * weight_of w i) \<and>
        (\<forall>d<2. elem kps [i, k, d] =
           (if is_nan (elem kp [i, column_of ki k, d]) then Fin 0
            else elem kp [i, column_of ki k, d]))"
    by blast
  have "elem mask [i, k] = Fin (elem oh [i, cid] * weight_of w i) \<and>
        elem kps [i, k, 0] = elem kp [i, column_of ki k, 0] \<and>
        elem kps [i, k, 1] = Fin 0"
    if ik: "i < N" "k < columns_of ki K"
      and y: "\<not> is_nan (elem kp [i, column_of ki k, 0])"
      and x: "is_nan (elem kp [i, column_of ki k, 1])" for i k
  proof -
    from v ik have m: "elem mask [i, k] =
          Fin (elem oh [i, cid] * (if is_nan (elem kp [i, column_of ki k, 0]) then 0 else 1)
               * weight_of w i)"
      and s: "\<forall>d<2. elem kps [i, k, d] =
           (if is_nan (elem kp [i, column_of ki k, d]) then Fin 0
            else elem kp [i, column_of ki k, d])"
      by blast+
    from s have "elem kps [i, k, 0] =
           (if is_nan (elem kp [i, column_of ki k, 0]) then Fin 0 else elem kp [i, column_of ki k, 0])"
      and "elem kps [i, k, 1] =
           (if is_nan (elem kp [i, column_of ki k, 1]) then Fin 0 else elem kp [i, column_of ki k, 1])"
      by simp_all
    with m x y show ?thesis
      by simp
  qed
  with r show ?thesis
    by blast
qed

text \<open>
  C4 as stated fails: with the soft membership 0.5 and the weight 2 of one instance
  with a valid keypoint, the mask is 1, which is neither 0 nor the weight 2.
\<close>

theorem mask_weight_counterexample:
  "get_valid_keypoint_mask_for_class (keypoints 1 [[(Fin 1, Fin 1)]]) 0 (fin (mat 1 [[1 / 2]]))
     (Some (fin (vec [2]))) None \<noteq> None \<and>
   elem (fst (the (get_valid_keypoint_mask_for_class (keypoints 1 [[(Fin 1, Fin 1)]]) 0
     (fin (mat 1 [[1 / 2]])) (Some (fin (vec [2]))) None))) [0, 0] = Fin 1 \<and>
   elem (fin (vec [2])) [0] = Fin 2 \<and>
   Fin 1 \<noteq> Fin 0 \<and> Fin 1 \<noteq> Fin 2"
  by (simp add: get_valid_keypoint_mask_for_class_def tf_defs keypoints_def mat_def vec_def
      f32_of_bool_def)

text \<open>
  The soft membership 0.5 with weight 2 gives the mask \<open>0.5 * 2 = 1\<close>; the hard membership
  1 with weight 2 gives the mask 2 at a valid keypoint and 0 at a NaN keypoint.
\<close>

theorem mask_zero_or_weighted_membership_witness:
  "(\<exists>mask kps.
      get_valid_keypoint_mask_for_class (keypoints 1 [[(Fin 1, Fin 1)]]) 0 (fin (mat 1 [[1 / 2]]))
        (Some (fin (vec [2]))) None = Some (mask, kps) \<and>
      shape mask = [1, 1] \<and> elem mask [0, 0] = Fin 1) \<and>
   (\<exists>mask kps.
      get_valid_keypoint_mask_for_class (keypoints 2 [[(Fin 1, Fin 1), (NaN, NaN)]]) 0
        (fin (mat 1 [[1]])) (Some (fin (vec [2]))) None = Some (mask, kps) \<and>
      shape mask = [1, 2] \<and> elem mask [0, 0] = Fin 2 \<and> elem mask [0, 1] = Fin 0)"
proof -
  let ?kp = "keypoints 1 [[(Fin 1, Fin 1)]]" and ?oh = "mat 1 [[1 / 2 :: real]]"
  let ?w = "Some (vec [2 :: real])" and ?ki = "None :: int list option"
  have "\<exists>mask kps.
     get_valid_keypoint_mask_for_class ?kp (int 0) (fin ?oh) (map_option fin ?w) ?ki = Some (mask, kps) \<and>
     shape mask = [1, columns_of ?ki 1] \<and>
     (\<forall>i<1. \<forall>k<columns_of ?ki 1.
        (elem mask [i, k] = Fin 0 \<or> elem mask [i, k] = Fin (elem ?oh [i, 0] * weight_of ?w i)) \<and>
        (elem ?oh [i, 0] = 0 \<or> elem ?oh [i, 0] = 1 \<longrightarrow>
           elem mask [i, k] = Fin 0 \<or> elem mask [i, k] = Fin (weight_of ?w i)))"
    by (rule mask_zero_or_weighted_membership [where C = 1]) (simp_all add: keypoints_def mat_def vec_def)
  then obtain mask kps where
    r: "get_valid_keypoint_mask_for_class ?kp 0 (fin ?oh) (Some (fin (vec [2]))) None = Some (mask, kps)"
       "shape mask = [1, 1]"
    and v: "\<forall>i<1. \<forall>k<1.
        (elem mask [i, k] = Fin 0 \<or> elem mask [i, k] = Fin (elem ?oh [i, 0] * weight_of ?w i))"
    by (auto simp: columns_of_def)
  from v have "elem mask [0, 0] = Fin 0 \<or> elem mask [0, 0] = Fin (elem ?oh [0, 0] * weight_of ?w 0)"
    by simp
  then have "elem mask [0, 0] = Fin 0 \<or> elem mask [0, 0] = Fin 1"
    by (simp add: mat_def vec_def weight_of_def)
  note r this
  moreover have "elem (fst (the (get_valid_keypoint_mask_for_class ?kp 0 (fin ?oh)
      (Some (fin (vec [2]))) None))) [0, 0] \<noteq> Fin 0"
    by (simp add: get_valid_keypoint_mask_for_class_def tf_defs keypoints_def mat_def vec_def
        f32_of_bool_def)
  ultimately have first: "\<exists>mask kps.
      get_valid_keypoint_mask_for_class ?kp 0 (fin ?oh) (Some (fin (vec [2]))) None = Some (mask, kps) \<and>
      shape mask = [1, 1] \<and> elem mask [0, 0] = Fin 1"
    by auto
  let ?kp2 = "keypoints 2 [[(Fin 1, Fin 1), (NaN, NaN)]]" and ?oh2 = "mat 1 [[1 :: real]]"
  have "\<exists>mask kps.
     get_valid_keypoint_mask_for_class ?kp2 (int 0) (fin ?oh2) (map_option fin ?w) ?ki = Some (mask, kps) \<and>
     shape mask = [1, columns_of ?ki 2] \<and>
     (\<forall>i<1. \<forall>k<columns_of ?ki 2.
        (elem mask [i, k] = Fin 0 \<or> elem mask [i, k] = Fin (elem ?oh2 [i, 0] * weight_of ?w i)) \<and>
        (elem ?oh2 [i, 0] = 0 \<or> elem ?oh2 [i, 0] = 1 \<longrightarrow>
           elem mask [i, k] = Fin 0 \<or> elem mask [i, k] = Fin (weight_of ?w i)))"
    by (rule mask_zero_or_weighted_membership [where C = 1]) (simp_all add: keypoints_def mat_def vec_def)
  then obtain mask2 kps2 where
    r2: "get_valid_keypoint_mask_for_class ?kp2 0 (fin ?oh2) (Some (fin (vec [2]))) None = Some (mask2, kps2)"
       "shape mask2 = [1, 2]"
    by (auto simp: columns_of_def)
  have "elem (fst (the (get_valid_keypoint_mask_for_class ?kp2 0 (fin ?oh2)
      (Some (fin (vec [2]))) None))) [0, 0] = Fin 2"
    and "elem (fst (the (get_valid_keypoint_mask_for_class ?kp2 0 (fin ?oh2)
      (Some (fin (vec [2]))) None))) [0, 1] = Fin 0"
    by (simp_all add: get_valid_keypoint_mask_for_class_def tf_defs keypoints_def mat_def vec_def
        f32_of_bool_def)
  with r2 have second: "\<exists>mask kps.
      get_valid_keypoint_mask_for_class ?kp2 0 (fin ?oh2) (Some (fin (vec [2]))) None = Some (mask, kps) \<and>
      shape mask = [1, 2] \<and> elem mask [0, 0] = Fin 2 \<and> elem mask [0, 1] = Fin 0"
    by auto
  from first second show ?thesis
    by blast
qed

text \<open>
  One instance of the class with the keypoints \<open>(NaN, NaN)\<close> and \<open>(4, 5)\<close>: the first has
  mask 0 and coordinates \<open>(0, 0)\<close>, the second mask 1 and its own coordinates.
\<close>

theorem nan_keypoint_masked_and_zeroed_witness:
  "\<exists>mask kps.
     get_valid_keypoint_mask_for_class (keypoints 2 [[(NaN, NaN), (Fin 4, Fin 5)]]) 0
       (fin (mat 1 [[1]])) None None = Some (mask, kps) \<and>
     shape mask = [1, 2] \<and> shape kps = [1, 2, 2] \<and>
     elem mask [0, 0] = Fin 0 \<and> elem kps [0, 0, 0] = Fin 0 \<and> elem kps [0, 0, 1] = Fin 0 \<and>
     elem mask [0, 1] = Fin 1 \<and> elem kps [0, 1, 0] = Fin 4 \<and> elem kps [0, 1, 1] = Fin 5"
proof -
  let ?kp = "keypoints 2 [[(NaN, NaN), (Fin 4, Fin 5)]]" and ?oh = "mat 1 [[1 :: real]]"
  let ?w = "None :: real tensor option" and ?ki = "None :: int list option"
  have "\<exists>mask kps.
     get_valid_keypoint_mask_for_class ?kp (int 0) (fin ?oh) (map_option fin ?w) ?ki = Some (mask, kps) \<and>
     shape mask = [1, columns_of ?ki 2] \<and>
     shape kps = [1, columns_of ?ki 2, 2] \<and>
     (\<forall>i<1. \<forall>k<columns_of ?ki 2.
        (is_nan (elem ?kp [i, column_of ?ki k, 0]) \<longrightarrow> elem mask [i, k] = Fin 0) \<and>
        (is_nan (elem ?kp [i, column_of ?ki k, 0]) \<and> is_nan (elem ?kp [i, column_of ?ki k, 1]) \<longrightarrow>
           elem kps [i, k, 0] = Fin 0 \<and> elem kps [i, k, 1] = Fin 0) \<and>
        elem mask [i, k] =
          Fin (elem ?oh [i, 0] * (if is_nan (elem ?kp [i, column_of ?ki k, 0]) then 0 else 1)
               * weight_of ?w i) \<and>
        (\<forall>d<2. elem kps [i, k, d] =
           (if is_nan (elem ?kp [i, column_of ?ki k, d]) then Fin 0
            else elem ?kp [i, column_of ?ki k, d])))"
    by (rule nan_keypoint_masked_and_zeroed [where C = 1])
       (simp_all add: keypoints_def mat_def)
  then obtain mask kps where
    r: "get_valid_keypoint_mask_for_class ?kp 0 (fin ?oh) None None = Some (mask, kps)"
       "shape mask = [1, 2]" "shape kps = [1, 2, 2]"
    and v: "\<forall>i<1. \<forall>k<2.
        elem mask [i, k] =
          Fin (elem ?oh [i, 0] * (if is_nan (elem ?kp [i, column_of ?ki k, 0]) then 0 else 1)
               * weight_of ?w i) \<and>
        (\<forall>d<2. elem kps [i, k, d] =
           (if is_nan (elem ?kp [i, column_of ?ki k, d]) then Fin 0
            else elem ?kp [i, column_of ?ki k, d]))"
    by (auto simp: columns_of_def)
  from v have "elem mask [0, 0] =
          Fin (elem ?oh [0, 0] * (if is_nan (elem ?kp [0, column_of ?ki 0, 0]) then 0 else 1)
               * weight_of ?w 0)"
    and "elem mask [0, 1] =
          Fin (elem ?oh [0, 0] * (if is_nan (elem ?kp [0, column_of ?ki 1, 0]) then 0 else 1)
               * weight_of ?w 0)"
    and "\<forall>d<2. elem kps [0, 0, d] =
           (if is_nan (elem ?kp [0, column_of ?ki 0, d]) then Fin 0
            else elem ?kp [0, column_of ?ki 0, d])"
    and "\<forall>d<2. elem kps [0, 1, d] =
           (if is_nan (elem ?kp [0, column_of ?ki 1, d]) then Fin 0
            else elem ?kp [0, column_of ?ki 1, d])"
    by simp_all
  then have "elem mask [0, 0] = Fin 0 \<and> elem kps [0, 0, 0] = Fin 0 \<and> elem kps [0, 0, 1] = Fin 0 \<and>
     elem mask [0, 1] = Fin 1 \<and> elem kps [0, 1, 0] = Fin 4 \<and> elem kps [0, 1, 1] = Fin 5"
    by (simp add: keypoints_def mat_def column_of_def weight_of_def)
  with r show ?thesis
    by blast
qed

text \<open>
  The keypoint \<open>(3, NaN)\<close> of an instance of the class: mask 1, sanitized \<open>(3, 0)\<close>.
\<close>

theorem nan_x_only_not_masked_witness:
  "\<exists>mask kps.
     get_valid_keypoint_mask_for_class (keypoints 1 [[(Fin 3, NaN)]]) 0
       (fin (mat 1 [[1]])) None None = Some (mask, kps) \<and>
     elem mask [0, 0] = Fin 1 \<and> elem kps [0, 0, 0] = Fin 3 \<and> elem kps [0, 0, 1] = Fin 0"
proof -
  let ?kp = "keypoints 1 [[(Fin 3, NaN)]]" and ?oh = "mat 1 [[1 :: real]]"
  let ?w = "None :: real tensor option" and ?ki = "None :: int list option"
  have "\<exists>mask kps.
     get_valid_keypoint_mask_for_class ?kp (int 0) (fin ?oh) (map_option fin ?w) ?ki = Some (mask, kps) \<and>
     (\<forall>i<1. \<forall>k<columns_of ?ki 1.
        \<not> is_nan (elem ?kp [i, column_of ?ki k, 0]) \<and> is_nan (elem ?kp [i, column_of ?ki k, 1]) \<longrightarrow>
        elem mask [i, k] = Fin (elem ?oh [i, 0] * weight_of ?w i) \<and>
        elem kps [i, k, 0] = elem ?kp [i, column_of ?ki k, 0] \<and>
        elem kps [i, k, 1] = Fin 0)"
    by (rule nan_x_only_not_masked [where C = 1])
       (simp_all add: keypoints_def mat_def)
  then obtain mask kps where
    r: "get_valid_keypoint_mask_for_class ?kp 0 (fin ?oh) None None = Some (mask, kps)"
    and v: "\<forall>i<1. \<forall>k<1.
        \<not> is_nan (elem ?kp [i, column_of ?ki k, 0]) \<and> is_nan (elem ?kp [i, column_of ?ki k, 1]) \<longrightarrow>
        elem mask [i, k] = Fin (elem ?oh [i, 0] * weight_of ?w i) \<and>
        elem kps [i, k, 0] = elem ?kp [i, column_of ?ki k, 0] \<and>
        elem kps [i, k, 1] = Fin 0"
    by (auto simp: columns_of_def)
  from v have "\<not> is_nan (elem ?kp [0, column_of ?ki 0, 0]) \<and> is_nan (elem ?kp [0, column_of ?ki 0, 1]) \<longrightarrow>
        elem mask [0, 0] = Fin (elem ?oh [0, 0] * weight_of ?w 0) \<and>
        elem kps [0, 0, 0] = elem ?kp [0, column_of ?ki 0, 0] \<and>
        elem kps [0, 0, 1] = Fin 0"
    by simp
  then have "elem mask [0, 0] = Fin 1 \<and> elem kps [0, 0, 0] = Fin 3 \<and> elem kps [0, 0, 1] = Fin 0"
    by (simp add: keypoints_def mat_def column_of_def weight_of_def)
  with r show ?thesis
    by blast
qed

subsection \<open>The region blackout mask\<close>

lemma in_boxes_char:
  assumes "shape boxes = [N, 4]"
  shows "\<exists>M. in_boxes H W (fin boxes) = Some M \<and> shape M = [N, H, W] \<and>
     (\<forall>i<N. \<forall>r<H. \<forall>c<W. elem M [i, r, c] = f32_of_bool (inside_box boxes i r c))"
  using assms
  by (simp add: in_boxes_def image_shape_to_grids_eq tf_defs f32_ge_def inside_box_def
      numeral_2_eq_2)

lemma blackout_char:
  assumes b: "shape boxes = [N, 4]" and bl: "shape blackout = [N]"
  shows "\<exists>T. blackout_pixel_weights_by_box_regions H W (fin boxes) blackout = Some T \<and>
     shape T = [H, W] \<and>
     (\<forall>r<H. \<forall>c<W. elem T [r, c] =
        f32_sub (Fin 1)
          (max_along N (\<lambda>i. if elem blackout [i] then f32_of_bool (inside_box boxes i r c)
                             else Fin 0)))"
proof -
  from in_boxes_char[OF b, of H W] obtain M where
    "in_boxes H W (fin boxes) = Some M \<and> shape M = [N, H, W] \<and>
     (\<forall>i<N. \<forall>r<H. \<forall>c<W. elem M [i, r, c] = f32_of_bool (inside_box boxes i r c))" ..
  then have M: "in_boxes H W (fin boxes) = Some M" "shape M = [N, H, W]"
    and Mv: "\<And>i r c. i < N \<Longrightarrow> r < H \<Longrightarrow> c < W \<Longrightarrow>
      elem M [i, r, c] = f32_of_bool (inside_box boxes i r c)"
    by simp_all
  show ?thesis
    using M(2) bl
    by (simp add: blackout_pixel_weights_by_box_regions_def M(1))
       (simp add: tf_defs Mv cong: max_along_cong if_cong)
qed

text \<open>
  With at least one box, the mask is 0.0 at the pixels inside some selected box, bounds
  included, and 1.0 elsewhere.
\<close>

lemma blackout_selected_boxes:
  assumes "shape boxes = [N, 4]" and "shape blackout = [N]" and "0 < N"
  shows "\<exists>T. blackout_pixel_weights_by_box_regions H W (fin boxes) blackout = Some T \<and>
     shape T = [H, W] \<and>
     (\<forall>r<H. \<forall>c<W. elem T [r, c] =
        (if \<exists>i<N. elem blackout [i] \<and> inside_box boxes i r c then Fin 0 else Fin 1))"
  using blackout_char[OF assms(1,2), of H W] assms(3)
  by (auto simp: max_along_selected f32_sub_def)

text \<open>
  With no box, the maximum over the boxes is \<open>-inf\<close>, which nothing clamps here, and
  the mask is \<open>1 - (-inf) = +inf\<close> at every pixel.
\<close>

lemma blackout_no_boxes:
  assumes "shape boxes = [0, 4]" and "shape blackout = [0]"
  shows "\<exists>T. blackout_pixel_weights_by_box_regions H W (fin boxes) blackout = Some T \<and>
     shape T = [H, W] \<and> (\<forall>r<H. \<forall>c<W. elem T [r, c] = PosInf)"
  using blackout_char[OF assms, of H W]
  by (auto simp: f32_sub_def)

text \<open>
  C6: the claim has the mask all 1.0 when there is no box (\<open>N = 0\<close>). On a 1 by 1 image
  with a \<open>boxes\<close> tensor of shape \<open>[0, 4]\<close> and a \<open>blackout\<close> tensor of shape \<open>[0]\<close>
  the function returns, without error, a mask of shape \<open>[1, 1]\<close> whose entry is
  \<open>+inf\<close>, not 1.0.
\<close>

theorem blackout_no_boxes_is_infinite:
  "blackout_pixel_weights_by_box_regions 1 1 (fin (mat 4 [])) (vec []) \<noteq> None \<and>
   shape (the (blackout_pixel_weights_by_box_regions 1 1 (fin (mat 4 [])) (vec []))) = [1, 1] \<and>
   elem (the (blackout_pixel_weights_by_box_regions 1 1 (fin (mat 4 [])) (vec []))) [0, 0] = PosInf \<and>
   PosInf \<noteq> Fin 1"
proof -
  have "shape (mat 4 ([] :: real list list)) = [0, 4]" "shape (vec ([] :: bool list)) = [0]"
    by (simp_all add: mat_def vec_def)
  from blackout_no_boxes[OF this, of 1 1] show ?thesis
    by auto
qed

text \<open>
  C10: with boxes of shape \<open>[N, 4]\<close> and a box \<open>j\<close>: when box \<open>j\<close> has inverted bounds
  (\<open>y_min > y_max\<close> or \<open>x_min > x_max\<close>) no pixel lies in it and the mask is the one of
  the other selected boxes alone; when box \<open>j\<close> is selected and is the single point
  \<open>(k, l)\<close> of integer coordinates, the pixels in it are exactly \<open>(k, l)\<close>, and the mask is
  0.0 there and otherwise as the other selected boxes make it.
\<close>

theorem inverted_and_degenerate_boxes:
  assumes "shape boxes = [N, 4]" and "shape blackout = [N]" and "j < N"
  shows "\<exists>T. blackout_pixel_weights_by_box_regions H W (fin boxes) blackout = Some T \<and>
     shape T = [H, W] \<and>
     (elem boxes [j, 2] < elem boxes [j, 0] \<or> elem boxes [j, 3] < elem boxes [j, 1] \<longrightarrow>
        (\<forall>r<H. \<forall>c<W.
           \<not> inside_box boxes j r c \<and>
           elem T [r, c] =
             (if \<exists>i<N. i \<noteq> j \<and> elem blackout [i] \<and> inside_box boxes i r c
              then Fin 0 else Fin 1))) \<and>
     (\<forall>k l.
        elem blackout [j] \<and>
        elem boxes [j, 0] = real k \<and> elem boxes [j, 2] = real k \<and>
        elem boxes [j, 1] = real l \<and> elem boxes [j, 3] = real l \<longrightarrow>
        (\<forall>r<H. \<forall>c<W.
           (inside_box boxes j r c \<longleftrightarrow> r = k \<and> c = l) \<and>
           elem T [r, c] =
             (if (r = k \<and> c = l) \<or>
                 (\<exists>i<N. i \<noteq> j \<and> elem blackout [i] \<and> inside_box boxes i r c)
              then Fin 0 else Fin 1)))"
proof -
  have N: "0 < N"
    using assms(3) by simp
  from blackout_selected_boxes[OF assms(1,2) N, of H W] obtain T where
    "blackout_pixel_weights_by_box_regions H W (fin boxes) blackout = Some T \<and>
     shape T = [H, W] \<and>
     (\<forall>r<H. \<forall>c<W. elem T [r, c] =
        (if \<exists>i<N. elem blackout [i] \<and> inside_box boxes i r c then Fin 0 else Fin 1))" ..
  then have T: "blackout_pixel_weights_by_box_regions H W (fin boxes) blackout = Some T"
      "shape T = [H, W]"
    and v: "\<And>r c. r < H \<Longrightarrow> c < W \<Longrightarrow> elem T [r, c] =
        (if \<exists>i<N. elem blackout [i] \<and> inside_box boxes i r c then Fin 0 else Fin 1)"
    by simp_all
  have inverted: "\<not> inside_box boxes j r c \<and>
           elem T [r, c] =
             (if \<exists>i<N. i \<noteq> j \<and> elem blackout [i] \<and> inside_box boxes i r c
              then Fin 0 else Fin 1)"
    if inv: "elem boxes [j, 2] < elem boxes [j, 0] \<or> elem boxes [j, 3] < elem boxes [j, 1]"
      and rc: "r < H" "c < W" for r c
  proof -
    have out: "\<not> inside_box boxes j r c"
      using inv by (auto simp: inside_box_def)
    then have "(\<exists>i<N. elem blackout [i] \<and> inside_box boxes i r c) \<longleftrightarrow>
        (\<exists>i<N. i \<noteq> j \<and> elem blackout [i] \<and> inside_box boxes i r c)"
      by auto
    with v[OF rc] out show ?thesis
      by simp
  qed
  have degenerate: "(inside_box boxes j r c \<longleftrightarrow> r = k \<and> c = l) \<and>
           elem T [r, c] =
             (if (r = k \<and> c = l) \<or>
                 (\<exists>i<N. i \<noteq> j \<and> elem blackout [i] \<and> inside_box boxes i r c)
              then Fin 0 else Fin 1)"
    if sel: "elem blackout [j]"
      and box: "elem boxes [j, 0] = real k" "elem boxes [j, 2] = real k"
        "elem boxes [j, 1] = real l" "elem boxes [j, 3] = real l"
      and rc: "r < H" "c < W" for k l r c
  proof -
    have ins: "inside_box boxes j r c \<longleftrightarrow> r = k \<and> c = l"
      using box by (auto simp: inside_box_def)
    have "(\<exists>i<N. elem blackout [i] \<and> inside_box boxes i r c) \<longleftrightarrow>
        (r = k \<and> c = l) \<or> (\<exists>i<N. i \<noteq> j \<and> elem blackout [i] \<and> inside_box boxes i r c)"
      using ins sel assms(3) by auto
    with v[OF rc] ins show ?thesis
      by simp
  qed
  show ?thesis
  proof (intro exI conjI)
    show "blackout_pixel_weights_by_box_regions H W (fin boxes) blackout = Some T"
      by (rule T(1))
    show "shape T = [H, W]"
      by (rule T(2))
    show "elem boxes [j, 2] < elem boxes [j, 0] \<or> elem boxes [j, 3] < elem boxes [j, 1] \<longrightarrow>
        (\<forall>r<H. \<forall>c<W.
           \<not> inside_box boxes j r c \<and>
           elem T [r, c] =
             (if \<exists>i<N. i \<noteq> j \<and> elem blackout [i] \<and> inside_box boxes i r c
              then Fin 0 else Fin 1))"
      by (intro impI allI) (rule inverted)
    show "\<forall>k l.
        elem blackout [j] \<and>
        elem boxes [j, 0] = real k \<and> elem boxes [j, 2] = real k \<and>
        elem boxes [j, 1] = real l \<and> elem boxes [j, 3] = real l \<longrightarrow>
        (\<forall>r<H. \<forall>c<W.
           (inside_box boxes j r c \<longleftrightarrow> r = k \<and> c = l) \<and>
           elem T [r, c] =
             (if (r = k \<and> c = l) \<or>
                 (\<exists>i<N. i \<noteq> j \<and> elem blackout [i] \<and> inside_box boxes i r c)
              then Fin 0 else Fin 1))"
    proof (intro allI impI)
      fix k l r c
      assume h: "elem blackout [j] \<and>
        elem boxes [j, 0] = real k \<and> elem boxes [j, 2] = real k \<and>
        elem boxes [j, 1] = real l \<and> elem boxes [j, 3] = real l"
        and rc: "r < H" "c < W"
      from h have "elem blackout [j]" "elem boxes [j, 0] = real k" "elem boxes [j, 2] = real k"
        "elem boxes [j, 1] = real l" "elem boxes [j, 3] = real l"
        by simp_all
      then show "(inside_box boxes j r c \<longleftrightarrow> r = k \<and> c = l) \<and>
           elem T [r, c] =
             (if (r = k \<and> c = l) \<or>
                 (\<exists>i<N. i \<noteq> j \<and> elem blackout [i] \<and> inside_box boxes i r c)
              then Fin 0 else Fin 1)"
        using rc by (rule degenerate)
    qed
  qed
qed

text \<open>
  On a 3 by 3 image, the selected inverted box \<open>(2, 2, 1, 1)\<close> blacks out nothing, and
  the selected box \<open>(1, 1, 1, 1)\<close> blacks out the pixel \<open>(1, 1)\<close> and no other.
\<close>

theorem inverted_and_degenerate_boxes_witness:
  "(\<exists>T. blackout_pixel_weights_by_box_regions 3 3 (fin (mat 4 [[2, 2, 1, 1]])) (vec [True]) = Some T \<and>
        shape T = [3, 3] \<and>
        elem T [0, 0] = Fin 1 \<and> elem T [1, 1] = Fin 1 \<and> elem T [2, 2] = Fin 1) \<and>
   (\<exists>T. blackout_pixel_weights_by_box_regions 3 3 (fin (mat 4 [[1, 1, 1, 1]])) (vec [True]) = Some T \<and>
        shape T = [3, 3] \<and>
        elem T [1, 1] = Fin 0 \<and> elem T [0, 1] = Fin 1 \<and> elem T [1, 2] = Fin 1 \<and>
        elem T [2, 2] = Fin 1)"
proof -
  let ?inv = "mat 4 [[2, 2, 1, 1 :: real]]" and ?deg = "mat 4 [[1, 1, 1, 1 :: real]]"
  let ?sel = "vec [True]"
  have sh: "shape ?inv = [1, 4]" "shape ?deg = [1, 4]" "shape ?sel = [1]"
    by (simp_all add: mat_def vec_def)
  have j: "(0::nat) < 1"
    by simp
  from inverted_and_degenerate_boxes [OF sh(1) sh(3) j, of 3 3] obtain T where
    T: "blackout_pixel_weights_by_box_regions 3 3 (fin ?inv) ?sel = Some T" "shape T = [3, 3]"
    and inv: "elem ?inv [0, 2] < elem ?inv [0, 0] \<or> elem ?inv [0, 3] < elem ?inv [0, 1] \<longrightarrow>
        (\<forall>r<3. \<forall>c<3.
           \<not> inside_box ?inv 0 r c \<and>
           elem T [r, c] =
             (if \<exists>i<1. i \<noteq> 0 \<and> elem ?sel [i] \<and> inside_box ?inv i r c
              then Fin 0 else Fin 1))"
    by (elim exE conjE)
  have "elem ?inv [0, 2] < elem ?inv [0, 0]"
    by (simp add: mat_def)
  with inv have "\<forall>r<3. \<forall>c<3. elem T [r, c] = Fin 1"
    by simp
  then have "elem T [0, 0] = Fin 1 \<and> elem T [1, 1] = Fin 1 \<and> elem T [2, 2] = Fin 1"
    by simp
  with T have first: "\<exists>T. blackout_pixel_weights_by_box_regions 3 3 (fin ?inv) ?sel = Some T \<and>
        shape T = [3, 3] \<and>
        elem T [0, 0] = Fin 1 \<and> elem T [1, 1] = Fin 1 \<and> elem T [2, 2] = Fin 1"
    by (intro exI[of _ T]) simp
  from inverted_and_degenerate_boxes [OF sh(2) sh(3) j, of 3 3] obtain U where
    U: "blackout_pixel_weights_by_box_regions 3 3 (fin ?deg) ?sel = Some U" "shape U = [3, 3]"
    and deg: "\<forall>k l.
        elem ?sel [0] \<and>
        elem ?deg [0, 0] = real k \<and> elem ?deg [0, 2] = real k \<and>
        elem ?deg [0, 1] = real l \<and> elem ?deg [0, 3] = real l \<longrightarrow>
        (\<forall>r<3. \<forall>c<3.
           (inside_box ?deg 0 r c \<longleftrightarrow> r = k \<and> c = l) \<and>
           elem U [r, c] =
             (if (r = k \<and> c = l) \<or>
                 (\<exists>i<1. i \<noteq> 0 \<and> elem ?sel [i] \<and> inside_box ?deg i r c)
              then Fin 0 else Fin 1))"
    by (elim exE conjE)
  from deg have "elem ?sel [0] \<and>
        elem ?deg [0, 0] = real 1 \<and> elem ?deg [0, 2] = real 1 \<and>
        elem ?deg [0, 1] = real 1 \<and> elem ?deg [0, 3] = real 1 \<longrightarrow>
        (\<forall>r<3. \<forall>c<3.
           (inside_box ?deg 0 r c \<longleftrightarrow> r = 1 \<and> c = 1) \<and>
           elem U [r, c] =
             (if (r = 1 \<and> c = 1) \<or>
                 (\<exists>i<1. i \<noteq> 0 \<and> elem ?sel [i] \<and> inside_box ?deg i r c)
              then Fin 0 else Fin 1))"
    by (elim allE)
  moreover have "elem ?sel [0] \<and>
        elem ?deg [0, 0] = real 1 \<and> elem ?deg [0, 2] = real 1 \<and>
        elem ?deg [0, 1] = real 1 \<and> elem ?deg [0, 3] = real 1"
    by (simp add: mat_def vec_def)
  ultimately have "\<forall>r<3. \<forall>c<3. elem U [r, c] = (if r = 1 \<and> c = 1 then Fin 0 else Fin 1)"
    by simp
  then have "elem U [1, 1] = Fin 0 \<and> elem U [0, 1] = Fin 1 \<and> elem U [1, 2] = Fin 1 \<and>
        elem U [2, 2] = Fin 1"
    by simp
  with U have second: "\<exists>T. blackout_pixel_weights_by_box_regions 3 3 (fin ?deg) ?sel = Some T \<and>
        shape T = [3, 3] \<and>
        elem T [1, 1] = Fin 0 \<and> elem T [0, 1] = Fin 1 \<and> elem T [1, 2] = Fin 1 \<and>
        elem T [2, 2] = Fin 1"
    by (intro exI[of _ U]) simp
  from first second show ?thesis
    by (rule conjI)
qed

end
